theory Spec2Isabelle
  imports Complex_Main "HOL-Library.AList"
begin

section \<open>Data model\<close>

text \<open>
  The script \<^verbatim>\<open>app.py\<close> works on pandas data frames. A cell of a frame is a missing
  value (the float \<^verbatim>\<open>nan\<close>), a Python string or a number. A column has a dtype:
  \<^verbatim>\<open>object\<close> (what \<^verbatim>\<open>read_csv\<close> and the search API give for text) or a numeric
  dtype. A frame is its column labels with their dtypes, and its rows: each row carries its
  index label and its cells by column label; a label absent from a row reads as \<^verbatim>\<open>nan\<close>.
  Python floats are modelled as reals, Python strings as the lists of their UTF-8 bytes.
\<close>

datatype cell = is_NaN: NaN | is_Str: Str string | is_Num: Num real

datatype dtype = Object | Numeric

type_synonym row = "cell \<times> (string \<times> cell) list"

record frame =
  index_name :: "string option"
  columns :: "(string \<times> dtype) list"
  rows :: "row list"

datatype error =
    KeyError string
  | AttributeError
  | ValueError
  | TypeError
  | ReError
  | ApiError
  | EmptyDataError
  | ParserError

definition cell_at :: "row \<Rightarrow> string \<Rightarrow> cell" where
  "cell_at r c = (case map_of (snd r) c of Some v \<Rightarrow> v | None \<Rightarrow> NaN)"

definition has_column :: "frame \<Rightarrow> string \<Rightarrow> bool" where
  "has_column df c = (map_of (columns df) c \<noteq> None)"

definition column_dtype :: "frame \<Rightarrow> string \<Rightarrow> dtype" where
  "column_dtype df c = (case map_of (columns df) c of Some d \<Rightarrow> d | None \<Rightarrow> Object)"

text \<open>\<^verbatim>\<open>df[c]\<close>: the cells of column \<open>c\<close>, or \<^verbatim>\<open>KeyError\<close>.\<close>

definition getitem :: "frame \<Rightarrow> string \<Rightarrow> error + cell list" where
  "getitem df c =
     (if has_column df c then Inr (map (\<lambda>r. cell_at r c) (rows df)) else Inl (KeyError c))"

text \<open>
  \<^verbatim>\<open>df[c] = e\<close> where \<open>e\<close> is computed row by row from \<open>df\<close> itself: the column is
  replaced where it stands, or appended as the last column.
\<close>

definition assign :: "frame \<Rightarrow> string \<Rightarrow> dtype \<Rightarrow> (row \<Rightarrow> cell) \<Rightarrow> frame" where
  "assign df c d f =
     df\<lparr>columns := AList.update c d (columns df),
        rows := map (\<lambda>r. (fst r, AList.update c (f r) (snd r))) (rows df)\<rparr>"

section \<open>Snapshot collection (lines 61 to 77)\<close>

text \<open>
  The world of the tracking loop: a clock in seconds and the sequence of effects so far.
  The search API and the clock's formatting are outside the script: \<open>response\<close> is what
  the API answers to a query set at a time, a table or an error, and \<open>strftime\<close> renders
  the clock.
\<close>

datatype event = Fetch "string list" | Write string frame | Sleep nat

record world =
  clock :: nat
  events :: "event list"

record env =
  response :: "nat \<Rightarrow> string list \<Rightarrow> error + frame"
  strftime :: "nat \<Rightarrow> string"

record settings =
  queries :: "string list"
  interval :: nat
  iterations :: nat
  folder_path :: string

definition emit :: "event \<Rightarrow> world \<Rightarrow> world" where
  "emit e w = w\<lparr>events := events w @ [e]\<rparr>"

definition sleep :: "nat \<Rightarrow> world \<Rightarrow> world" where
  "sleep d w = emit (Sleep d) (w\<lparr>clock := clock w + d\<rparr>)"

definition csv_path :: "settings \<Rightarrow> string \<Rightarrow> string" where
  "csv_path S date = folder_path S @ ''/serp_'' @ date @ ''_scheduled_serp.csv''"

text \<open>
  \<^verbatim>\<open>adv.serp_goog(q=queries, key=api_key, cx=cse_id)\<close>: the request goes out, and the call
  returns what the API answers or raises its error.
\<close>

definition serp_goog :: "env \<Rightarrow> string list \<Rightarrow> world \<Rightarrow> (error + frame) \<times> world" where
  "serp_goog E q w = (response E (clock w) q, emit (Fetch q) w)"

definition record_serp :: "env \<Rightarrow> settings \<Rightarrow> world \<Rightarrow> (error + frame) \<times> world" where
  "record_serp E S w =
     (let date = strftime E (clock w)
      in case serp_goog E (queries S) w of
           (Inl e, w1) \<Rightarrow> (Inl e, w1)
         | (Inr df, w1) \<Rightarrow> (Inr df, emit (Write (csv_path S date) df) w1))"

text \<open>The body of \<^verbatim>\<open>for i in range(iterations)\<close>, over the remaining values of \<open>i\<close>.\<close>

fun tracking :: "env \<Rightarrow> settings \<Rightarrow> nat list \<Rightarrow> frame list \<Rightarrow> world \<Rightarrow> (error + frame list) \<times> world"
  where
  "tracking E S [] collected_dfs w = (Inr collected_dfs, w)"
| "tracking E S (i # is) collected_dfs w =
     (case record_serp E S w of
        (Inl e, w') \<Rightarrow> (Inl e, w')
      | (Inr df, w') \<Rightarrow>
          tracking E S is (collected_dfs @ [df])
            (if int i < int (iterations S) - 1 then sleep (interval S) w' else w'))"









section \<open>Table merging (lines 79 to 87 and 94 to 102)\<close>

text \<open>
  \<^verbatim>\<open>pd.concat(dfs, ignore_index=True)\<close>: no table raises \<^verbatim>\<open>ValueError\<close>; otherwise the
  rows follow each other under a fresh index \<open>0, 1, ...\<close> with no name, and the columns are
  the union of the tables' columns in order of first appearance. A column absent from a
  table is missing in that table's rows; a column that has different dtypes in two tables
  becomes an \<^verbatim>\<open>object\<close> column.
\<close>

fun add_column :: "(string \<times> dtype) list \<Rightarrow> string \<times> dtype \<Rightarrow> (string \<times> dtype) list" where
  "add_column cols (c, d) =
     (case map_of cols c of
        None \<Rightarrow> cols @ [(c, d)]
      | Some d' \<Rightarrow> if d' = d then cols else AList.update c Object cols)"

definition union_columns :: "frame list \<Rightarrow> (string \<times> dtype) list" where
  "union_columns dfs = foldl add_column [] (concat (map columns dfs))"

definition own_cells :: "frame \<Rightarrow> row list" where
  "own_cells df =
     map (\<lambda>r. (fst r, filter (\<lambda>kv. has_column df (fst kv)) (snd r))) (rows df)"

definition range_index :: "row list \<Rightarrow> row list" where
  "range_index rs = map (\<lambda>ir. (Num (real (fst ir)), snd (snd ir))) (enumerate 0 rs)"

definition pd_concat :: "frame list \<Rightarrow> error + frame" where
  "pd_concat dfs =
     (if dfs = [] then Inl ValueError
      else Inr \<lparr>index_name = None, columns = union_columns dfs,
                rows = range_index (concat (map own_cells dfs))\<rparr>)"

text \<open>\<^verbatim>\<open>df.drop(columns=c, inplace=True, errors="ignore")\<close>\<close>

definition drop_column :: "string \<Rightarrow> frame \<Rightarrow> frame" where
  "drop_column c df =
     df\<lparr>columns := AList.delete c (columns df),
        rows := map (\<lambda>r. (fst r, AList.delete c (snd r))) (rows df)\<rparr>"

text \<open>\<^verbatim>\<open>df.set_index(c, inplace=True)\<close>: the column becomes the index and leaves the columns.\<close>

definition set_index :: "string \<Rightarrow> frame \<Rightarrow> error + frame" where
  "set_index c df =
     (if has_column df c
      then Inr \<lparr>index_name = Some c, columns = AList.delete c (columns df),
                rows = map (\<lambda>r. (cell_at r c, AList.delete c (snd r))) (rows df)\<rparr>
      else Inl (KeyError c))"

text \<open>
  \<^verbatim>\<open>pd.to_datetime(index, errors="coerce").strftime("%Y-%m-%d %H:%M:%S")\<close>. The parser is
  outside the script: \<open>to_datetime idx c\<close> is what it makes of the label \<open>c\<close> within the
  index \<open>idx\<close> (the format is inferred from the whole index), \<open>None\<close> for \<^verbatim>\<open>NaT\<close>. The
  rendering of \<^verbatim>\<open>NaT\<close> is the missing value.
\<close>

record 't timelib =
  to_datetime :: "cell list \<Rightarrow> cell \<Rightarrow> 't option"
  format_time :: "'t \<Rightarrow> string"

definition canonical :: "'t timelib \<Rightarrow> cell list \<Rightarrow> cell \<Rightarrow> cell" where
  "canonical T idx c = (case to_datetime T idx c of None \<Rightarrow> NaN | Some t \<Rightarrow> Str (format_time T t))"

definition canonical_index :: "'t timelib \<Rightarrow> frame \<Rightarrow> frame" where
  "canonical_index T df =
     (let idx = map fst (rows df)
      in df\<lparr>rows := map (\<lambda>r. (canonical T idx (fst r), snd r)) (rows df)\<rparr>)"

definition merge :: "'t timelib \<Rightarrow> frame list \<Rightarrow> error + frame" where
  "merge T dfs =
     (case pd_concat dfs of
        Inl e \<Rightarrow> Inl e
      | Inr serp_csv \<Rightarrow>
          (case set_index ''queryTime'' (drop_column ''Unnamed: 0'' serp_csv) of
             Inl e \<Rightarrow> Inl e
           | Inr indexed \<Rightarrow> Inr (canonical_index T indexed)))"

section \<open>Derived metrics and the result filter (lines 127 to 211)\<close>

subsection \<open>Strings and regular expressions\<close>

text \<open>
  \<^verbatim>\<open>Series.str.contains(keyword, regex=True, case=False)\<close> compiles the keyword with
  \<^verbatim>\<open>re.IGNORECASE\<close> and searches each string. The engine is outside the script; three
  cases are fixed here. The empty pattern is found in every string. A pattern that starts
  with a repetition sign has nothing to repeat and does not compile. A pattern of ASCII
  characters none of which is special to \<^verbatim>\<open>re\<close> is found in an ASCII string exactly when it
  occurs in it, letters compared without case. Everything else is left to the engine:
  \<open>re_valid\<close> says whether a pattern compiles, \<open>re_search\<close> whether it is found.
\<close>

definition lower_char :: "char \<Rightarrow> char" where
  "lower_char c =
     (case map_of (zip ''ABCDEFGHIJKLMNOPQRSTUVWXYZ'' ''abcdefghijklmnopqrstuvwxyz'') c of
        Some l \<Rightarrow> l
      | None \<Rightarrow> c)"

definition lower :: "string \<Rightarrow> string" where
  "lower s = map lower_char s"

fun occurs_in :: "string \<Rightarrow> string \<Rightarrow> bool" where
  "occurs_in p [] = (p = [])"
| "occurs_in p (c # s) = (take (length p) (c # s) = p \<or> occurs_in p s)"

definition ascii :: "string \<Rightarrow> bool" where
  "ascii s = list_all (\<lambda>c. \<not> digit7 c) s"

definition special_chars :: string where
  "special_chars = CHR 0x5C # ''.^$*+?{}[]|()''"

definition plain :: "string \<Rightarrow> bool" where
  "plain p = (ascii p \<and> list_all (\<lambda>c. c \<notin> set special_chars) p)"

record textlib =
  polarity :: "string \<Rightarrow> real"
  float_str :: "real \<Rightarrow> string"
  re_valid :: "string \<Rightarrow> bool"
  re_search :: "string \<Rightarrow> string \<Rightarrow> bool"

definition re_compile :: "textlib \<Rightarrow> string \<Rightarrow> (string \<Rightarrow> bool) option" where
  "re_compile L pat =
     (if pat = [] then Some (\<lambda>s. True)
      else if hd pat \<in> set ''*+?'' then None
      else if plain pat
        then Some (\<lambda>s. if ascii s then occurs_in (lower pat) (lower s) else re_search L pat s)
      else if re_valid L pat then Some (re_search L pat)
      else None)"

subsection \<open>The string accessor and boolean indexing\<close>

text \<open>
  \<^verbatim>\<open>df[c].str\<close> raises \<^verbatim>\<open>AttributeError\<close> unless the column has dtype \<^verbatim>\<open>object\<close> and
  either holds a string or holds nothing but missing values. Under the accessor a cell
  that is not a string gives the missing value.
\<close>

definition str_accessor :: "frame \<Rightarrow> string \<Rightarrow> error + cell list" where
  "str_accessor df c =
     (case getitem df c of
        Inl e \<Rightarrow> Inl e
      | Inr vs \<Rightarrow>
          if column_dtype df c = Object \<and> (list_ex is_Str vs \<or> list_all is_NaN vs)
          then Inr vs else Inl AttributeError)"

fun found :: "(string \<Rightarrow> bool) \<Rightarrow> cell \<Rightarrow> bool option" where
  "found m (Str s) = Some (m s)"
| "found m v = None"

definition str_contains :: "textlib \<Rightarrow> string \<Rightarrow> frame \<Rightarrow> string \<Rightarrow> error + bool option list" where
  "str_contains L pat df c =
     (case str_accessor df c of
        Inl e \<Rightarrow> Inl e
      | Inr vs \<Rightarrow>
          (case re_compile L pat of
             None \<Rightarrow> Inl ReError
           | Some m \<Rightarrow> Inr (map (found m) vs)))"

text \<open>
  \<^verbatim>\<open>a | b\<close> on two masks: a missing value on the right counts as false, and a missing
  value on the left makes the result false.
\<close>

fun mask_or :: "bool option \<Rightarrow> bool option \<Rightarrow> bool option" where
  "mask_or None b = Some False"
| "mask_or (Some x) b = Some (x \<or> b = Some True)"

text \<open>
  \<^verbatim>\<open>df[mask].copy()\<close>: a mask that holds a missing value raises \<^verbatim>\<open>ValueError\<close>; otherwise
  the rows where the mask is true are kept, in order.
\<close>

definition mask_rows :: "frame \<Rightarrow> bool option list \<Rightarrow> error + frame" where
  "mask_rows df bs =
     (if list_ex (\<lambda>b. b = None) bs then Inl ValueError
      else Inr (df\<lparr>rows := map snd (filter (\<lambda>br. fst br = Some True) (zip bs (rows df)))\<rparr>))"

subsection \<open>The script\<close>

datatype filter_field = Search_Terms | Title | Both

definition result_filter :: "textlib \<Rightarrow> string \<Rightarrow> filter_field \<Rightarrow> frame \<Rightarrow> error + frame" where
  "result_filter L keyword filter_field serp_csv =
     (case filter_field of
        Search_Terms \<Rightarrow>
          (case str_contains L keyword serp_csv ''searchTerms'' of
             Inl e \<Rightarrow> Inl e
           | Inr m \<Rightarrow> mask_rows serp_csv m)
      | Title \<Rightarrow>
          (case str_contains L keyword serp_csv ''title'' of
             Inl e \<Rightarrow> Inl e
           | Inr m \<Rightarrow> mask_rows serp_csv m)
      | Both \<Rightarrow>
          (case str_contains L keyword serp_csv ''searchTerms'' of
             Inl e \<Rightarrow> Inl e
           | Inr a \<Rightarrow>
               (case str_contains L keyword serp_csv ''title'' of
                  Inl e \<Rightarrow> Inl e
                | Inr b \<Rightarrow> mask_rows serp_csv (map2 mask_or a b))))"

text \<open>\<^verbatim>\<open>str(x)\<close> of a cell.\<close>

fun py_str :: "textlib \<Rightarrow> cell \<Rightarrow> string" where
  "py_str L NaN = ''nan''"
| "py_str L (Str s) = s"
| "py_str L (Num x) = float_str L x"

text \<open>Lines 127 to 129: \<^verbatim>\<open>serp_csv["sentiment"] = serp_csv["title"].apply(...)\<close>\<close>

definition add_sentiment :: "textlib \<Rightarrow> frame \<Rightarrow> error + frame" where
  "add_sentiment L serp_csv =
     (if has_column serp_csv ''title''
      then Inr (assign serp_csv ''sentiment'' Numeric
                  (\<lambda>r. Num (polarity L (py_str L (cell_at r ''title'')))))
      else Inl (KeyError ''title''))"

text \<open>
  \<^verbatim>\<open>df[dst] = f(df[src])\<close> for an arithmetic \<open>f\<close>: a string in the source column raises
  \<^verbatim>\<open>TypeError\<close>, a missing value stays missing.
\<close>

fun arith_cell :: "(real \<Rightarrow> real) \<Rightarrow> cell \<Rightarrow> cell" where
  "arith_cell f (Num x) = Num (f x)"
| "arith_cell f v = NaN"

definition arith :: "(real \<Rightarrow> real) \<Rightarrow> string \<Rightarrow> string \<Rightarrow> frame \<Rightarrow> error + frame" where
  "arith f src dst df =
     (case getitem df src of
        Inl e \<Rightarrow> Inl e
      | Inr vs \<Rightarrow>
          if list_ex is_Str vs then Inl TypeError
          else Inr (assign df dst Numeric (\<lambda>r. arith_cell f (cell_at r src))))"

text \<open>
  Line 210: \<^verbatim>\<open>serp_results["title_length"] = serp_results["title"].str.len()\<close>. The length of
  a Python string is the number of its characters, that is of the bytes that do not
  continue a character; the bytes that do are those whose two highest bits are \<open>10\<close>.
\<close>

definition continuation :: "char \<Rightarrow> bool" where
  "continuation c = (digit7 c \<and> \<not> digit6 c)"

definition py_len :: "string \<Rightarrow> nat" where
  "py_len s = length (filter (\<lambda>c. \<not> continuation c) s)"

fun str_len :: "cell \<Rightarrow> cell" where
  "str_len (Str s) = Num (real (py_len s))"
| "str_len v = NaN"

definition add_title_length :: "frame \<Rightarrow> error + frame" where
  "add_title_length serp_results =
     (case str_accessor serp_results ''title'' of
        Inl e \<Rightarrow> Inl e
      | Inr vs \<Rightarrow> Inr (assign serp_results ''title_length'' Numeric (\<lambda>r. str_len (cell_at r ''title''))))"

text \<open>
  \<^verbatim>\<open>df[[c1, c2]]\<close> raises \<^verbatim>\<open>KeyError\<close> when one of the columns is absent. A chart call
  (\<^verbatim>\<open>px.histogram\<close>, \<^verbatim>\<open>px.scatter\<close>) reads the table, and raises \<^verbatim>\<open>ValueError\<close> when a
  column it is given by name is absent; what it draws, and what else it may refuse, is not
  modelled.
\<close>

definition getitems :: "frame \<Rightarrow> string list \<Rightarrow> error option" where
  "getitems df names =
     (case filter (\<lambda>c. \<not> has_column df c) names of [] \<Rightarrow> None | c # cs \<Rightarrow> Some (KeyError c))"

definition chart :: "frame \<Rightarrow> string list \<Rightarrow> error option" where
  "chart df names = (if list_all (has_column df) names then None else Some ValueError)"

text \<open>
  Lines 127 to 226 in order, from the sentiment scores to the second scatter plot. The
  unified table is the one held in the session state, and the assignments change it in
  place: when a statement raises, the script stops there and the session keeps the table
  as it then is. The run is what was raised, if anything, the unified table, and the
  filtered copy if the script got to make it.
\<close>

record run =
  raised :: "error option"
  session_csv :: frame
  results :: "frame option"

definition derived_metrics :: "textlib \<Rightarrow> string \<Rightarrow> filter_field \<Rightarrow> frame \<Rightarrow> run" where
  "derived_metrics L keyword filter_field serp_csv =
     (case add_sentiment L serp_csv of
        Inl e \<Rightarrow> \<lparr>raised = Some e, session_csv = serp_csv, results = None\<rparr>
      | Inr csv1 \<Rightarrow>
     (case arith (\<lambda>x. x + 1) ''sentiment'' ''sentiment_positive'' csv1 of
        Inl e \<Rightarrow> \<lparr>raised = Some e, session_csv = csv1, results = None\<rparr>
      | Inr csv2 \<Rightarrow>
     (case getitems csv2 [''title'', ''sentiment''] of
        Some e \<Rightarrow> \<lparr>raised = Some e, session_csv = csv2, results = None\<rparr>
      | None \<Rightarrow>
     (case chart csv2 [''sentiment''] of
        Some e \<Rightarrow> \<lparr>raised = Some e, session_csv = csv2, results = None\<rparr>
      | None \<Rightarrow>
     (case result_filter L keyword filter_field csv2 of
        Inl e \<Rightarrow> \<lparr>raised = Some e, session_csv = csv2, results = None\<rparr>
      | Inr res0 \<Rightarrow>
     (case arith (\<lambda>x. x * 20 + 10) ''sentiment_positive'' ''bubble_size''
             (assign res0 ''bubble_size'' Numeric (\<lambda>r. Num 35)) of
        Inl e \<Rightarrow> \<lparr>raised = Some e, session_csv = csv2,
                   results = Some (assign res0 ''bubble_size'' Numeric (\<lambda>r. Num 35))\<rparr>
      | Inr res1 \<Rightarrow>
     (case chart res1 [''displayLink'', ''rank'', ''link'', ''searchTerms'', ''title'',
                       ''sentiment'', ''bubble_size''] of
        Some e \<Rightarrow> \<lparr>raised = Some e, session_csv = csv2, results = Some res1\<rparr>
      | None \<Rightarrow>
     (case add_title_length res1 of
        Inl e \<Rightarrow> \<lparr>raised = Some e, session_csv = csv2, results = Some res1\<rparr>
      | Inr res2 \<Rightarrow>
     (case arith (\<lambda>x. x * 20 + 10) ''sentiment_positive'' ''sentiment_size'' res2 of
        Inl e \<Rightarrow> \<lparr>raised = Some e, session_csv = csv2, results = Some res2\<rparr>
      | Inr res3 \<Rightarrow>
     (case chart res3 [''title_length'', ''rank'', ''displayLink'', ''sentiment_size''] of
        Some e \<Rightarrow> \<lparr>raised = Some e, session_csv = csv2, results = Some res3\<rparr>
      | None \<Rightarrow> \<lparr>raised = None, session_csv = csv2, results = Some res3\<rparr>))))))))))"







text \<open>The rows of the merged table, as the three steps after the concatenation leave them.\<close>

definition merged_rows :: "'t timelib \<Rightarrow> frame list \<Rightarrow> row list" where
  "merged_rows T dfs =
     (let rs = concat (map own_cells dfs);
          qs = map (\<lambda>r. cell_at r ''queryTime'') rs
      in map (\<lambda>r. (canonical T qs (cell_at r ''queryTime''),
                    AList.delete ''queryTime'' (AList.delete ''Unnamed: 0'' (snd r)))) rs)"

text \<open>
  Two uploaded files and a parser used to exercise the merger. The stand-in parser knows
  two ways of writing one instant, and reads each only in an index whose first label
  present is written that way: the parser takes the format of the first label for all of
  them, and a label written otherwise does not parse.
\<close>

definition time_format :: "cell \<Rightarrow> nat" where
  "time_format c =
     (if c = Str ''2024-05-01 10:00:00.123456+00:00'' then 1
      else if c = Str ''2024-05-01 10:00:00'' then 2 else 0)"

definition example_timelib :: "nat timelib" where
  "example_timelib =
     \<lparr>to_datetime =
        (\<lambda>idx c. if 0 < time_format c
                     \<and> map time_format (take 1 (filter (\<lambda>v. \<not> is_NaN v) idx)) = [time_format c]
                  then Some 0 else None),
      format_time = (\<lambda>t. ''2024-05-01 10:00:00'')\<rparr>"

definition example_upload1 :: frame where
  "example_upload1 =
     \<lparr>index_name = None,
      columns = [(''Unnamed: 0'', Numeric), (''searchTerms'', Object), (''title'', Object),
                 (''queryTime'', Object)],
      rows = [(Num 0, [(''Unnamed: 0'', Num 0), (''searchTerms'', Str ''serp tools''),
                       (''title'', Str ''Great SERP tracker''),
                       (''queryTime'', Str ''2024-05-01 10:00:00.123456+00:00'')]),
              (Num 1, [(''Unnamed: 0'', Num 1), (''searchTerms'', Str ''seo''),
                       (''title'', Str ''Bad SEO advice''),
                       (''queryTime'', Str ''yesterday'')])]\<rparr>"

definition example_upload2 :: frame where
  "example_upload2 =
     \<lparr>index_name = None,
      columns = [(''searchTerms'', Object), (''title'', Object), (''queryTime'', Object)],
      rows = [(Num 0, [(''searchTerms'', Str ''seo''), (''title'', Str ''Serp basics''),
                       (''queryTime'', Str ''2024-05-01 10:00:00.123456+00:00'')])]\<rparr>"

text \<open>
  Auxiliary notions for the filter: \<open>str_ok\<close> is the string accessor's test on a column,
  \<open>all_text\<close> says every cell of a column is a string, and \<open>keep\<close> is the filter's own
  decision on one row once the keyword has compiled to \<open>m\<close>.
\<close>

definition str_ok :: "frame \<Rightarrow> string \<Rightarrow> bool" where
  "str_ok df c =
     (column_dtype df c = Object
      \<and> (list_ex (\<lambda>r. is_Str (cell_at r c)) (rows df) \<or> list_all (\<lambda>r. is_NaN (cell_at r c)) (rows df)))"

definition all_text :: "frame \<Rightarrow> string \<Rightarrow> bool" where
  "all_text df c = list_all (\<lambda>r. is_Str (cell_at r c)) (rows df)"

fun keep :: "(string \<Rightarrow> bool) \<Rightarrow> filter_field \<Rightarrow> row \<Rightarrow> bool" where
  "keep m Search_Terms r = (found m (cell_at r ''searchTerms'') = Some True)"
| "keep m Title r = (found m (cell_at r ''title'') = Some True)"
| "keep m Both r =
     (mask_or (found m (cell_at r ''searchTerms'')) (found m (cell_at r ''title'')) = Some True)"

text \<open>
  The filter as the specification words it: the rows whose selected field contains the
  keyword, where \<open>m\<close> decides whether a string contains it.
\<close>

fun selected_columns :: "filter_field \<Rightarrow> string list" where
  "selected_columns Search_Terms = [''searchTerms'']"
| "selected_columns Title = [''title'']"
| "selected_columns Both = [''searchTerms'', ''title'']"

fun contains_keyword :: "(string \<Rightarrow> bool) \<Rightarrow> cell \<Rightarrow> bool" where
  "contains_keyword m (Str s) = m s"
| "contains_keyword m v = False"

definition spec_filter :: "(string \<Rightarrow> bool) \<Rightarrow> filter_field \<Rightarrow> frame \<Rightarrow> frame" where
  "spec_filter m f t =
     t\<lparr>rows := filter (\<lambda>r. list_ex (\<lambda>c. contains_keyword m (cell_at r c)) (selected_columns f))
                  (rows t)\<rparr>"

text \<open>A text column: present, of dtype \<^verbatim>\<open>object\<close>, every cell a string.\<close>

definition text_column :: "frame \<Rightarrow> string \<Rightarrow> bool" where
  "text_column df c = (has_column df c \<and> column_dtype df c = Object \<and> all_text df c)"

text \<open>
  A table, and stand-ins for the libraries, used to exercise the filter and the metrics. The
  stand-in engine is never consulted: the keywords used are the empty one, plain ones, and
  ones that start with a repetition sign.
\<close>

definition example_textlib :: textlib where
  "example_textlib =
     \<lparr>polarity = (\<lambda>s. if occurs_in ''great'' (lower s) then 4 / 5
                      else if occurs_in ''bad'' (lower s) then - (7 / 10) else 0),
      float_str = (\<lambda>x. ''0.0''),
      re_valid = (\<lambda>p. False),
      re_search = (\<lambda>p s. False)\<rparr>"

definition example_table :: frame where
  "example_table =
     \<lparr>index_name = Some ''queryTime'',
      columns = [(''searchTerms'', Object), (''rank'', Numeric), (''title'', Object)],
      rows = [(Str ''2024-05-01 10:00:00'',
                 [(''searchTerms'', Str ''serp tracking tools''), (''rank'', Num 1),
                  (''title'', Str ''Great SERP tracker'')]),
              (Str ''2024-05-01 10:00:00'',
                 [(''searchTerms'', Str ''seo rank tracking''), (''rank'', Num 1),
                  (''title'', Str ''Bad SEO advice'')]),
              (NaN,
                 [(''searchTerms'', Str ''seo rank tracking''), (''rank'', Num 2),
                  (''title'', Str ''Serp basics'')])]\<rparr>"

text \<open>
  A table as the concatenation of two uploads gives it when every title of the first file
  reads as a number: the title column has dtype \<^verbatim>\<open>object\<close> and holds a number and a string.
\<close>

definition mixed_table :: frame where
  "mixed_table =
     \<lparr>index_name = Some ''queryTime'',
      columns = [(''searchTerms'', Object), (''title'', Object)],
      rows = [(Str ''2024-05-01 10:00:00'',
                 [(''searchTerms'', Str ''serp tools''), (''title'', Num 404)]),
              (Str ''2024-05-02 10:00:00'',
                 [(''searchTerms'', Str ''seo''), (''title'', Str ''SEO guide'')])]\<rparr>"

text \<open>No cell of the column is a number.\<close>

definition no_numbers :: "frame \<Rightarrow> string \<Rightarrow> bool" where
  "no_numbers df c = list_all (\<lambda>r. \<not> is_Num (cell_at r c)) (rows df)"

text \<open>The sentiment the script computes for a row: the polarity of the title's text.\<close>

definition sentiment_of :: "textlib \<Rightarrow> row \<Rightarrow> real" where
  "sentiment_of L r = polarity L (py_str L (cell_at r ''title''))"

text \<open>A row with one cell replaced or added, as a column assignment leaves it.\<close>

definition upd :: "string \<Rightarrow> (row \<Rightarrow> cell) \<Rightarrow> row \<Rightarrow> row" where
  "upd c g r = (fst r, AList.update c (g r) (snd r))"

text \<open>
  What claim C1 says of a row: a sentiment in \<open>[-1, 1]\<close> with the shifted sentiment one
  above it (so in \<open>[0, 2]\<close>), and a bubble size of twenty times the shifted sentiment plus
  ten.
\<close>

definition scored_row :: "row \<Rightarrow> bool" where
  "scored_row r =
     (case (cell_at r ''sentiment'', cell_at r ''sentiment_positive'') of
        (Num x, Num y) \<Rightarrow> - 1 \<le> x \<and> x \<le> 1 \<and> y = x + 1 \<and> 0 \<le> y \<and> y \<le> 2
      | _ \<Rightarrow> False)"

definition sized_row :: "row \<Rightarrow> bool" where
  "sized_row r =
     (case (cell_at r ''sentiment_positive'', cell_at r ''bubble_size'') of
        (Num y, Num b) \<Rightarrow> b = y * 20 + 10
      | _ \<Rightarrow> False)"

text \<open>
  The tables the script builds on the way: the unified table with its two scores, and the
  filtered copy with its bubble size, then its title length, then its sentiment size.
\<close>

definition scored :: "textlib \<Rightarrow> frame \<Rightarrow> frame" where
  "scored L t =
     assign (assign t ''sentiment'' Numeric (\<lambda>r. Num (sentiment_of L r)))
       ''sentiment_positive'' Numeric (\<lambda>r. arith_cell (\<lambda>x. x + 1) (cell_at r ''sentiment''))"

definition bubbled :: "frame \<Rightarrow> frame" where
  "bubbled res0 =
     assign (assign res0 ''bubble_size'' Numeric (\<lambda>r. Num 35))
       ''bubble_size'' Numeric (\<lambda>r. arith_cell (\<lambda>x. x * 20 + 10) (cell_at r ''sentiment_positive''))"

definition measured :: "frame \<Rightarrow> frame" where
  "measured res1 = assign res1 ''title_length'' Numeric (\<lambda>r. str_len (cell_at r ''title''))"

definition sized :: "frame \<Rightarrow> frame" where
  "sized res2 =
     assign res2 ''sentiment_size'' Numeric
       (\<lambda>r. arith_cell (\<lambda>x. x * 20 + 10) (cell_at r ''sentiment_positive''))"

text \<open>Every cell of the column is a number.\<close>

definition all_numbers :: "frame \<Rightarrow> string \<Rightarrow> bool" where
  "all_numbers df c = list_all (\<lambda>r. is_Num (cell_at r c)) (rows df)"

text \<open>
  A table with the columns the charts name, and the two tables the script leaves for it,
  filtered by search terms.
\<close>

definition serp_table :: frame where
  "serp_table =
     \<lparr>index_name = Some ''queryTime'',
      columns = [(''searchTerms'', Object), (''rank'', Numeric), (''title'', Object),
                 (''displayLink'', Object), (''link'', Object)],
      rows = [(Str ''2024-05-01 10:00:00'',
                 [(''searchTerms'', Str ''serp tracking tools''), (''rank'', Num 1),
                  (''title'', Str ''Great SERP tracker''),
                  (''displayLink'', Str ''a.example''), (''link'', Str ''https://a.example/'')]),
              (Str ''2024-05-01 10:00:00'',
                 [(''searchTerms'', Str ''seo rank tracking''), (''rank'', Num 1),
                  (''title'', Str ''Bad SEO advice''),
                  (''displayLink'', Str ''b.example''), (''link'', Str ''https://b.example/'')]),
              (NaN,
                 [(''searchTerms'', Str ''seo rank tracking''), (''rank'', Num 2),
                  (''title'', Str ''Serp basics''),
                  (''displayLink'', Str ''c.example''), (''link'', Str ''https://c.example/'')])]\<rparr>"

definition example_scored :: frame where
  "example_scored =
     \<lparr>index_name = Some ''queryTime'',
      columns = [(''searchTerms'', Object), (''rank'', Numeric), (''title'', Object),
                 (''displayLink'', Object), (''link'', Object),
                 (''sentiment'', Numeric), (''sentiment_positive'', Numeric)],
      rows = [(Str ''2024-05-01 10:00:00'',
                 [(''searchTerms'', Str ''serp tracking tools''), (''rank'', Num 1),
                  (''title'', Str ''Great SERP tracker''),
                  (''displayLink'', Str ''a.example''), (''link'', Str ''https://a.example/''),
                  (''sentiment'', Num (4 / 5)), (''sentiment_positive'', Num (9 / 5))]),
              (Str ''2024-05-01 10:00:00'',
                 [(''searchTerms'', Str ''seo rank tracking''), (''rank'', Num 1),
                  (''title'', Str ''Bad SEO advice''),
                  (''displayLink'', Str ''b.example''), (''link'', Str ''https://b.example/''),
                  (''sentiment'', Num (- (7 / 10))), (''sentiment_positive'', Num (3 / 10))]),
              (NaN,
                 [(''searchTerms'', Str ''seo rank tracking''), (''rank'', Num 2),
                  (''title'', Str ''Serp basics''),
                  (''displayLink'', Str ''c.example''), (''link'', Str ''https://c.example/''),
                  (''sentiment'', Num 0), (''sentiment_positive'', Num 1)])]\<rparr>"

definition example_result :: frame where
  "example_result =
     \<lparr>index_name = Some ''queryTime'',
      columns = [(''searchTerms'', Object), (''rank'', Numeric), (''title'', Object),
                 (''displayLink'', Object), (''link'', Object),
                 (''sentiment'', Numeric), (''sentiment_positive'', Numeric),
                 (''bubble_size'', Numeric), (''title_length'', Numeric),
                 (''sentiment_size'', Numeric)],
      rows = [(Str ''2024-05-01 10:00:00'',
                 [(''searchTerms'', Str ''serp tracking tools''), (''rank'', Num 1),
                  (''title'', Str ''Great SERP tracker''),
                  (''displayLink'', Str ''a.example''), (''link'', Str ''https://a.example/''),
                  (''sentiment'', Num (4 / 5)), (''sentiment_positive'', Num (9 / 5)),
                  (''bubble_size'', Num 46), (''title_length'', Num 18),
                  (''sentiment_size'', Num 46)])]\<rparr>"

text \<open>
  A table whose only title is missing, as \<^verbatim>\<open>read_csv\<close> gives it: a column of nothing but
  missing values has a numeric dtype.
\<close>

definition untitled_table :: frame where
  "untitled_table =
     \<lparr>index_name = Some ''queryTime'',
      columns = [(''searchTerms'', Object), (''rank'', Numeric), (''title'', Numeric),
                 (''displayLink'', Object), (''link'', Object)],
      rows = [(Str ''2024-05-01 10:00:00'',
                 [(''searchTerms'', Str ''serp tracking tools''), (''rank'', Num 1),
                  (''title'', NaN),
                  (''displayLink'', Str ''a.example''), (''link'', Str ''https://a.example/'')])]\<rparr>"

text \<open>A table that comes with a column named \<^verbatim>\<open>sentiment\<close> of its own.\<close>

definition labelled_table :: frame where
  "labelled_table =
     \<lparr>index_name = Some ''queryTime'',
      columns = [(''searchTerms'', Object), (''rank'', Numeric), (''title'', Object),
                 (''displayLink'', Object), (''link'', Object), (''sentiment'', Object)],
      rows = [(Str ''2024-05-01 10:00:00'',
                 [(''searchTerms'', Str ''serp tracking tools''), (''rank'', Num 1),
                  (''title'', Str ''Great SERP tracker''),
                  (''displayLink'', Str ''a.example''), (''link'', Str ''https://a.example/''),
                  (''sentiment'', Str ''mixed'')])]\<rparr>"

section \<open>Export and re-import (lines 94 to 102 and 109 to 116)\<close>

text \<open>
  \<^verbatim>\<open>serp_csv.to_csv()\<close> and \<^verbatim>\<open>pd.read_csv(file)\<close>. The CSV text is modelled as its grid of
  fields, the header first: quoting and the encoding to UTF-8 are the writer's and the
  parser's own and lose nothing. The writer gives the index label and then the cells by
  column; a missing value is the empty field, a string is itself, and a number is written as
  \<open>float_repr\<close> renders it. The parser names an empty header field \<^verbatim>\<open>Unnamed: j\<close> after its
  position, reads a field that is one of its missing-value markers as the missing value,
  and reads a column all of whose other fields are literals as those literals' values;
  \<open>literal\<close> says which number a field is, if it is one. Any other column is read as
  strings, and so is every column of a file that has a header and no row. The export
  writes every row as long as the header; what the parser makes of a grid with a longer
  row (it takes leading fields for index labels, or raises) is left to \<open>ragged\<close>. Repeated
  header labels, which the parser would rename, and the words it reads as booleans, are not
  modelled: the cell type has no booleans.
\<close>

record csvlib =
  float_repr :: "real \<Rightarrow> string"
  literal :: "string \<Rightarrow> real option"
  ragged :: "string list list \<Rightarrow> error + frame"

definition na_values :: "string list" where
  "na_values =
     ['''', ''#N/A'', ''#N/A N/A'', ''#NA'', ''-1.#IND'', ''-1.#QNAN'', ''-NaN'', ''-nan'',
      ''1.#IND'', ''1.#QNAN'', ''<NA>'', ''N/A'', ''NA'', ''NULL'', ''NaN'', ''None'', ''n/a'',
      ''nan'', ''null'']"

definition is_na :: "string \<Rightarrow> bool" where
  "is_na f = (f \<in> set na_values)"

fun field :: "csvlib \<Rightarrow> cell \<Rightarrow> string" where
  "field C NaN = ''''"
| "field C (Str s) = s"
| "field C (Num x) = float_repr C x"

definition to_csv :: "csvlib \<Rightarrow> frame \<Rightarrow> string list list" where
  "to_csv C df =
     ((case index_name df of None \<Rightarrow> '''' | Some n \<Rightarrow> n) # map fst (columns df))
     # map (\<lambda>r. field C (fst r) # map (\<lambda>c. field C (cell_at r c)) (map fst (columns df)))
         (rows df)"

fun decimal :: "nat \<Rightarrow> string" where
  "decimal n =
     (if n < 10 then [''0123456789'' ! n] else decimal (n div 10) @ [''0123456789'' ! (n mod 10)])"

definition header_name :: "nat \<Rightarrow> string \<Rightarrow> string" where
  "header_name j h = (if h = [] then ''Unnamed: '' @ decimal j else h)"

definition field_at :: "string list \<Rightarrow> nat \<Rightarrow> string" where
  "field_at fs j = (if j < length fs then fs ! j else '''')"

definition numeric_fields :: "csvlib \<Rightarrow> string list \<Rightarrow> bool" where
  "numeric_fields C fs = list_all (\<lambda>f. is_na f \<or> literal C f \<noteq> None) fs"

definition read_field :: "csvlib \<Rightarrow> bool \<Rightarrow> string \<Rightarrow> cell" where
  "read_field C num f =
     (if is_na f then NaN
      else if num then (case literal C f of Some x \<Rightarrow> Num x | None \<Rightarrow> NaN)
      else Str f)"

definition read_csv :: "csvlib \<Rightarrow> string list list \<Rightarrow> error + frame" where
  "read_csv C grid =
     (case grid of
        [] \<Rightarrow> Inl EmptyDataError
      | header # body \<Rightarrow>
          if list_ex (\<lambda>fs. length header < length fs) body then ragged C grid
          else
            let names = map (\<lambda>jh. header_name (fst jh) (snd jh)) (enumerate 0 header);
                num = (\<lambda>j. body \<noteq> [] \<and> numeric_fields C (map (\<lambda>fs. field_at fs j) body))
            in Inr \<lparr>index_name = None,
                    columns = map (\<lambda>jn. (snd jn, if num (fst jn) then Numeric else Object))
                                (enumerate 0 names),
                    rows = map (\<lambda>ifs. (Num (real (fst ifs)),
                                   map (\<lambda>jn. (snd jn, read_field C (num (fst jn)) (field_at (snd ifs) (fst jn))))
                                     (enumerate 0 names)))
                             (enumerate 0 body)\<rparr>)"

text \<open>
  Lines 94 to 102, which the script runs when the list of uploaded files is not empty: every
  file is read, and the tables are merged.
\<close>

fun read_files :: "csvlib \<Rightarrow> string list list list \<Rightarrow> error + frame list" where
  "read_files C [] = Inr []"
| "read_files C (file # files) =
     (case read_csv C file of
        Inl e \<Rightarrow> Inl e
      | Inr df \<Rightarrow> (case read_files C files of Inl e \<Rightarrow> Inl e | Inr dfs \<Rightarrow> Inr (df # dfs)))"

definition upload :: "'t timelib \<Rightarrow> csvlib \<Rightarrow> string list list list \<Rightarrow> error + frame" where
  "upload T C uploaded_files =
     (case read_files C uploaded_files of
        Inl e \<Rightarrow> Inl e
      | Inr serp_csvs \<Rightarrow> merge T serp_csvs)"

text \<open>The exported file uploaded again, alone.\<close>

definition reimport :: "'t timelib \<Rightarrow> csvlib \<Rightarrow> frame \<Rightarrow> error + frame" where
  "reimport T C serp_csv = upload T C [to_csv C serp_csv]"

text \<open>
  Stand-ins for the number formats, right on the natural numbers: a natural number is
  written in decimal, and a field of decimal digits is read as that number.
\<close>

fun digits_value :: "nat \<Rightarrow> string \<Rightarrow> nat option" where
  "digits_value acc [] = Some acc"
| "digits_value acc (c # s) =
     (case map_of (zip ''0123456789'' [0..<10]) c of
        None \<Rightarrow> None
      | Some d \<Rightarrow> digits_value (acc * 10 + d) s)"

definition example_csvlib :: csvlib where
  "example_csvlib =
     \<lparr>float_repr = (\<lambda>x. decimal (nat \<lfloor>x\<rfloor>)),
      literal = (\<lambda>s. if s = [] then None else map_option real (digits_value 0 s)),
      ragged = (\<lambda>grid. Inl ParserError)\<rparr>"

text \<open>
  Two saved snapshots whose titles are read differently: every title of the first file is a
  number. The table merged from them holds the number 404 and a string in its title column.
\<close>

definition upload_a :: "string list list" where
  "upload_a =
     [['''', ''searchTerms'', ''title'', ''queryTime''],
      [''0'', ''serp tools'', ''404'', ''2024-05-01 10:00:00.123456+00:00'']]"

definition upload_b :: "string list list" where
  "upload_b =
     [['''', ''searchTerms'', ''title'', ''queryTime''],
      [''0'', ''seo'', ''SEO guide'', ''2024-05-01 10:00:00.123456+00:00'']]"

definition session_table :: frame where
  "session_table =
     \<lparr>index_name = Some ''queryTime'',
      columns = [(''searchTerms'', Object), (''title'', Object)],
      rows = [(Str ''2024-05-01 10:00:00'',
                 [(''searchTerms'', Str ''serp tools''), (''title'', Num 404)]),
              (Str ''2024-05-01 10:00:00'',
                 [(''searchTerms'', Str ''seo''), (''title'', Str ''SEO guide'')])]\<rparr>"

text \<open>
  A column that survives the round trip: only numbers that are written to a text read back
  as the same number, and missing values; or only strings that are not missing-value
  markers, and missing values, with a string among them that is neither a literal nor a
  word read as a boolean.
\<close>

fun number_kept :: "csvlib \<Rightarrow> cell \<Rightarrow> bool" where
  "number_kept C NaN = True"
| "number_kept C (Num x) = (literal C (float_repr C x) = Some x \<and> \<not> is_na (float_repr C x))"
| "number_kept C (Str s) = False"

fun text_kept :: "cell \<Rightarrow> bool" where
  "text_kept NaN = True"
| "text_kept (Str s) = (\<not> is_na s)"
| "text_kept (Num x) = False"

definition bool_words :: "string list" where
  "bool_words = [''True'', ''TRUE'', ''true'', ''False'', ''FALSE'', ''false'']"

fun plain_text :: "csvlib \<Rightarrow> cell \<Rightarrow> bool" where
  "plain_text C (Str s) = (literal C s = None \<and> s \<notin> set bool_words)"
| "plain_text C v = False"

definition stable_column :: "csvlib \<Rightarrow> frame \<Rightarrow> string \<Rightarrow> bool" where
  "stable_column C df c =
     (list_all (\<lambda>r. number_kept C (cell_at r c)) (rows df)
      \<or> (list_all (\<lambda>r. text_kept (cell_at r c)) (rows df)
         \<and> list_ex (\<lambda>r. plain_text C (cell_at r c)) (rows df)))"

text \<open>The rows of a table as tuples of cells, by its columns in order.\<close>

definition data_rows :: "frame \<Rightarrow> cell list list" where
  "data_rows df = map (\<lambda>r. map (cell_at r) (map fst (columns df))) (rows df)"

text \<open>
  What the export writes for a row under a header label, whether the parser reads the
  column under that label as numbers, and the cell it reads back.
\<close>

definition csv_field :: "csvlib \<Rightarrow> string \<Rightarrow> row \<Rightarrow> string \<Rightarrow> string" where
  "csv_field C q r h = (if h = q then field C (fst r) else field C (cell_at r h))"

definition csv_numeric :: "csvlib \<Rightarrow> string \<Rightarrow> frame \<Rightarrow> string \<Rightarrow> bool" where
  "csv_numeric C q df h =
     (rows df \<noteq> [] \<and> numeric_fields C (map (\<lambda>r. csv_field C q r h) (rows df)))"

definition csv_cell :: "csvlib \<Rightarrow> string \<Rightarrow> frame \<Rightarrow> row \<Rightarrow> string \<Rightarrow> cell" where
  "csv_cell C q df r h = read_field C (csv_numeric C q df h) (csv_field C q r h)"

section \<open>The collector: fetches, files and sleeps\<close>

















section \<open>The merger: row count, dropped column, canonical index\<close>

lemma map_of_add_column:
  "map_of (add_column cols cd) c \<noteq> None \<longleftrightarrow> map_of cols c \<noteq> None \<or> c = fst cd"
  by (cases cd) (auto simp: update_conv' map_add_def split: option.splits)

lemma map_of_foldl_add_column:
  "map_of (foldl add_column acc cs) c \<noteq> None \<longleftrightarrow> map_of acc c \<noteq> None \<or> c \<in> fst ` set cs"
proof (induction cs arbitrary: acc)
  case Nil
  show ?case by simp
next
  case (Cons cd cs)
  show ?case
    unfolding foldl_Cons Cons.IH map_of_add_column by auto
qed

lemma map_of_union_columns:
  "map_of (union_columns dfs) c \<noteq> None \<longleftrightarrow> (\<exists>df\<in>set dfs. has_column df c)"
  unfolding union_columns_def map_of_foldl_add_column has_column_def
  by (auto simp: map_of_eq_None_iff)

lemma length_range_index: "length (range_index rs) = length rs"
  by (simp add: range_index_def)

lemma length_own_cells: "length (own_cells df) = length (rows df)"
  by (simp add: own_cells_def)

lemma map_range_index: "map (\<lambda>r. h (snd r)) (range_index rs) = map (\<lambda>r. h (snd r)) rs"
proof -
  have "map (\<lambda>r. h (snd r)) (range_index rs) = map (\<lambda>r. h (snd r)) (map snd (enumerate 0 rs))"
    by (simp only: range_index_def map_map comp_def snd_conv)
  then show ?thesis by (simp only: map_snd_enumerate)
qed

lemma cell_at_delete: "c \<noteq> k \<Longrightarrow> cell_at (l, AList.delete k kvs) c = cell_at (l', kvs) c"
  by (simp add: cell_at_def)

lemma cell_at_deleted: "cell_at (l, AList.delete k kvs) k = NaN"
  by (simp add: cell_at_def delete_conv')

lemma merge_result:
  assumes "dfs \<noteq> []" and "\<exists>df\<in>set dfs. has_column df ''queryTime''"
  shows "merge T dfs =
           Inr \<lparr>index_name = Some ''queryTime'',
                columns = AList.delete ''queryTime'' (AList.delete ''Unnamed: 0'' (union_columns dfs)),
                rows = merged_rows T dfs\<rparr>"
proof -
  let ?rs = "concat (map own_cells dfs)"
  let ?cat = "\<lparr>index_name = None, columns = union_columns dfs, rows = range_index ?rs\<rparr>"
  have cat: "pd_concat dfs = Inr ?cat" using assms(1) by (simp add: pd_concat_def)
  have hc: "has_column (drop_column ''Unnamed: 0'' ?cat) ''queryTime''"
    using assms(2) map_of_union_columns [of dfs "''queryTime''"]
    by (simp add: has_column_def drop_column_def)
  let ?g = "\<lambda>kvs. (cell_at (NaN, kvs) ''queryTime'', AList.delete ''queryTime'' (AList.delete ''Unnamed: 0'' kvs))"
  have q: "cell_at (l, AList.delete ''Unnamed: 0'' kvs) ''queryTime'' = cell_at (NaN, kvs) ''queryTime''" for l kvs
    by (rule cell_at_delete) simp
  have si: "set_index ''queryTime'' (drop_column ''Unnamed: 0'' ?cat)
            = Inr \<lparr>index_name = Some ''queryTime'',
                   columns = AList.delete ''queryTime'' (AList.delete ''Unnamed: 0'' (union_columns dfs)),
                   rows = map (\<lambda>r. ?g (snd r)) ?rs\<rparr>"
    using hc map_range_index [of ?g ?rs]
    by (simp add: set_index_def drop_column_def comp_def q)
  have idx: "map fst (map (\<lambda>r. ?g (snd r)) ?rs) = map (\<lambda>r. cell_at r ''queryTime'') ?rs"
    by (simp add: comp_def cell_at_def)
  have rows: "map (\<lambda>r. (canonical T (map (\<lambda>r. cell_at r ''queryTime'') ?rs) (fst r), snd r)) (map (\<lambda>r. ?g (snd r)) ?rs)
              = merged_rows T dfs"
    by (simp add: merged_rows_def Let_def comp_def cell_at_def)
  have "merge T dfs
        = Inr (canonical_index T \<lparr>index_name = Some ''queryTime'',
                   columns = AList.delete ''queryTime'' (AList.delete ''Unnamed: 0'' (union_columns dfs)),
                   rows = map (\<lambda>r. ?g (snd r)) ?rs\<rparr>)"
    by (simp only: merge_def cat si sum.case)
  also have "\<dots> = Inr \<lparr>index_name = Some ''queryTime'',
                columns = AList.delete ''queryTime'' (AList.delete ''Unnamed: 0'' (union_columns dfs)),
                rows = merged_rows T dfs\<rparr>"
    using idx rows by (simp add: canonical_index_def Let_def del: map_map)
  finally show ?thesis .
qed

lemma length_merged_rows:
  "length (merged_rows T dfs) = sum_list (map (\<lambda>df. length (rows df)) dfs)"
  by (simp add: merged_rows_def Let_def length_concat comp_def length_own_cells)

lemma index_merged_rows:
  "map fst (merged_rows T dfs)
   = (let qs = map (\<lambda>r. cell_at r ''queryTime'') (concat (map own_cells dfs))
      in map (canonical T qs) qs)"
  by (simp add: merged_rows_def Let_def comp_def)

lemma dropped_merged_rows:
  "list_all (\<lambda>r. cell_at r ''Unnamed: 0'' = NaN) (merged_rows T dfs)"
proof -
  have "cell_at (l, AList.delete ''queryTime'' (AList.delete ''Unnamed: 0'' kvs)) ''Unnamed: 0'' = NaN"
    for l kvs
    by (simp add: cell_at_def delete_conv')
  then show ?thesis by (simp add: merged_rows_def Let_def list_all_iff)
qed

text \<open>
  Claim C3. For one or more tables of which at least one has a \<^verbatim>\<open>queryTime\<close> column, the
  merger returns one table whose row count is the sum of the tables' row counts, which has
  no \<^verbatim>\<open>Unnamed: 0\<close> column (whether or not a table had one) and no cell under that label,
  and whose index is named \<^verbatim>\<open>queryTime\<close> and holds, row by row, the canonical rendering of
  the parsed query time.
\<close>

theorem merger_row_count:
  assumes "dfs \<noteq> []" and "\<exists>df\<in>set dfs. has_column df ''queryTime''"
  shows "\<exists>m. merge T dfs = Inr m
           \<and> length (rows m) = sum_list (map (\<lambda>df. length (rows df)) dfs)
           \<and> \<not> has_column m ''Unnamed: 0''
           \<and> list_all (\<lambda>r. cell_at r ''Unnamed: 0'' = NaN) (rows m)
           \<and> index_name m = Some ''queryTime''
           \<and> map fst (rows m)
               = (let qs = map (\<lambda>r. cell_at r ''queryTime'') (concat (map own_cells dfs))
                  in map (canonical T qs) qs)"
proof -
  let ?m = "\<lparr>index_name = Some ''queryTime'',
             columns = AList.delete ''queryTime'' (AList.delete ''Unnamed: 0'' (union_columns dfs)),
             rows = merged_rows T dfs\<rparr>"
  have "merge T dfs = Inr ?m" by (rule merge_result [OF assms])
  moreover have "length (rows ?m) = sum_list (map (\<lambda>df. length (rows df)) dfs)"
    by (simp add: length_merged_rows)
  moreover have "\<not> has_column ?m ''Unnamed: 0''"
    by (simp add: has_column_def delete_conv')
  moreover have "list_all (\<lambda>r. cell_at r ''Unnamed: 0'' = NaN) (rows ?m)"
    by (simp add: dropped_merged_rows)
  moreover have "index_name ?m = Some ''queryTime''" by simp
  moreover have "map fst (rows ?m)
      = (let qs = map (\<lambda>r. cell_at r ''queryTime'') (concat (map own_cells dfs))
         in map (canonical T qs) qs)"
    by (simp only: frame.simps index_merged_rows)
  ultimately show ?thesis by (intro exI [of _ ?m] conjI)
qed

lemma example_uploads_ok:
  "[example_upload1, example_upload2] \<noteq> []"
  "\<exists>df\<in>set [example_upload1, example_upload2]. has_column df ''queryTime''"
  by (simp_all add: has_column_def example_upload1_def)

lemma example_uploads_times:
  "map (\<lambda>r. cell_at r ''queryTime'') (concat (map own_cells [example_upload1, example_upload2]))
   = [Str ''2024-05-01 10:00:00.123456+00:00'', Str ''yesterday'',
      Str ''2024-05-01 10:00:00.123456+00:00'']"
  by (simp add: own_cells_def has_column_def cell_at_def example_upload1_def example_upload2_def)

theorem merger_row_count_witness:
  "[example_upload1, example_upload2] \<noteq> []
   \<and> (\<exists>df\<in>set [example_upload1, example_upload2]. has_column df ''queryTime'')
   \<and> has_column example_upload1 ''Unnamed: 0'' \<and> \<not> has_column example_upload2 ''Unnamed: 0''
   \<and> (\<exists>m. merge example_timelib [example_upload1, example_upload2] = Inr m
         \<and> length (rows m) = 3
         \<and> \<not> has_column m ''Unnamed: 0''
         \<and> map fst (rows m) = [Str ''2024-05-01 10:00:00'', NaN, Str ''2024-05-01 10:00:00''])"
proof -
  from merger_row_count [OF example_uploads_ok, of example_timelib] obtain m where
    m: "merge example_timelib [example_upload1, example_upload2] = Inr m"
      "length (rows m) = sum_list (map (\<lambda>df. length (rows df)) [example_upload1, example_upload2])"
      "\<not> has_column m ''Unnamed: 0''"
      "map fst (rows m)
         = (let qs = map (\<lambda>r. cell_at r ''queryTime'')
                       (concat (map own_cells [example_upload1, example_upload2]))
            in map (canonical example_timelib qs) qs)"
    by blast
  have a: "length (rows m) = 3"
    using m(2) by (simp add: example_upload1_def example_upload2_def)
  have b: "map fst (rows m) = [Str ''2024-05-01 10:00:00'', NaN, Str ''2024-05-01 10:00:00'']"
    using m(4) unfolding example_uploads_times
    by (simp add: canonical_def example_timelib_def time_format_def)
  have c: "has_column example_upload1 ''Unnamed: 0''" "\<not> has_column example_upload2 ''Unnamed: 0''"
    by (simp_all add: has_column_def example_upload1_def example_upload2_def)
  have "\<exists>m. merge example_timelib [example_upload1, example_upload2] = Inr m
         \<and> length (rows m) = 3
         \<and> \<not> has_column m ''Unnamed: 0''
         \<and> map fst (rows m) = [Str ''2024-05-01 10:00:00'', NaN, Str ''2024-05-01 10:00:00'']"
    using m(1) a m(3) b by (intro exI [of _ m] conjI)
  then show ?thesis using example_uploads_ok c by (intro conjI)
qed

text \<open>
  Claim C5. For one or more tables of which at least one has a \<^verbatim>\<open>queryTime\<close> column, the
  merger does not raise, whatever the query times are: a row whose query time does not
  parse gets the missing value as its index label, and a row whose query time parses gets
  the rendering of the parsed time.
\<close>

theorem merger_coerces_unparsable:
  assumes "dfs \<noteq> []" and "\<exists>df\<in>set dfs. has_column df ''queryTime''"
  shows "\<exists>m. merge T dfs = Inr m
           \<and> (let qs = map (\<lambda>r. cell_at r ''queryTime'') (concat (map own_cells dfs))
              in length (rows m) = length qs
                 \<and> (\<forall>i<length qs.
                      (to_datetime T qs (qs ! i) = None \<longrightarrow> fst (rows m ! i) = NaN)
                      \<and> (\<forall>t. to_datetime T qs (qs ! i) = Some t
                             \<longrightarrow> fst (rows m ! i) = Str (format_time T t))))"
proof -
  let ?m = "\<lparr>index_name = Some ''queryTime'',
             columns = AList.delete ''queryTime'' (AList.delete ''Unnamed: 0'' (union_columns dfs)),
             rows = merged_rows T dfs\<rparr>"
  let ?qs = "map (\<lambda>r. cell_at r ''queryTime'') (concat (map own_cells dfs))"
  have m: "merge T dfs = Inr ?m" by (rule merge_result [OF assms])
  have idx: "map fst (merged_rows T dfs) = map (canonical T ?qs) ?qs"
    using index_merged_rows [of T dfs] by (simp add: Let_def)
  then have len: "length (merged_rows T dfs) = length ?qs"
    by (metis length_map)
  have lab: "fst (merged_rows T dfs ! i) = canonical T ?qs (?qs ! i)" if "i < length ?qs" for i
  proof -
    have "fst (merged_rows T dfs ! i) = map fst (merged_rows T dfs) ! i"
      using that len by simp
    also have "\<dots> = canonical T ?qs (?qs ! i)"
      unfolding idx using that by (rule nth_map)
    finally show ?thesis .
  qed
  have "let qs = ?qs
        in length (rows ?m) = length qs
           \<and> (\<forall>i<length qs.
                 (to_datetime T qs (qs ! i) = None \<longrightarrow> fst (rows ?m ! i) = NaN)
                 \<and> (\<forall>t. to_datetime T qs (qs ! i) = Some t
                        \<longrightarrow> fst (rows ?m ! i) = Str (format_time T t)))"
    unfolding Let_def using len lab by (simp add: canonical_def)
  with m show ?thesis by (rule exI [of _ ?m, OF conjI])
qed

theorem merger_coerces_unparsable_witness:
  "[example_upload1, example_upload2] \<noteq> []
   \<and> (\<exists>df\<in>set [example_upload1, example_upload2]. has_column df ''queryTime'')
   \<and> to_datetime example_timelib
        [Str ''2024-05-01 10:00:00.123456+00:00'', Str ''yesterday'',
         Str ''2024-05-01 10:00:00.123456+00:00'']
        (Str ''yesterday'') = None
   \<and> (\<exists>m. merge example_timelib [example_upload1, example_upload2] = Inr m
         \<and> length (rows m) = 3
         \<and> fst (rows m ! 0) = Str ''2024-05-01 10:00:00''
         \<and> fst (rows m ! 1) = NaN)"
proof -
  let ?qs = "[Str ''2024-05-01 10:00:00.123456+00:00'', Str ''yesterday'',
              Str ''2024-05-01 10:00:00.123456+00:00'']"
  from merger_coerces_unparsable [OF example_uploads_ok, of example_timelib] obtain m where
    m: "merge example_timelib [example_upload1, example_upload2] = Inr m"
      "length (rows m) = length ?qs"
      "\<forall>i<length ?qs.
          (to_datetime example_timelib ?qs (?qs ! i) = None \<longrightarrow> fst (rows m ! i) = NaN)
          \<and> (\<forall>t. to_datetime example_timelib ?qs (?qs ! i) = Some t
                 \<longrightarrow> fst (rows m ! i) = Str (format_time example_timelib t))"
    unfolding example_uploads_times Let_def by blast
  have p: "to_datetime example_timelib ?qs (Str ''yesterday'') = None"
    "to_datetime example_timelib ?qs (Str ''2024-05-01 10:00:00.123456+00:00'') = Some 0"
    by (simp_all add: example_timelib_def time_format_def)
  have a: "length (rows m) = 3" using m(2) by simp
  have b: "fst (rows m ! 1) = NaN" using m(3) p(1) by (auto dest: spec [of _ 1])
  have "fst (rows m ! 0) = Str (format_time example_timelib 0)"
    using m(3) p(2) by (auto dest!: spec [of _ 0])
  then have c: "fst (rows m ! 0) = Str ''2024-05-01 10:00:00''"
    by (simp add: example_timelib_def)
  have "\<exists>m. merge example_timelib [example_upload1, example_upload2] = Inr m
         \<and> length (rows m) = 3
         \<and> fst (rows m ! 0) = Str ''2024-05-01 10:00:00''
         \<and> fst (rows m ! 1) = NaN"
    using m(1) a c b by (intro exI [of _ m] conjI)
  then show ?thesis using example_uploads_ok p(1) by (intro conjI)
qed

section \<open>The result filter\<close>

lemma keep_fun:
  "keep m Search_Terms = (\<lambda>r. found m (cell_at r ''searchTerms'') = Some True)"
  "keep m Title = (\<lambda>r. found m (cell_at r ''title'') = Some True)"
  "keep m Both =
     (\<lambda>r. mask_or (found m (cell_at r ''searchTerms'')) (found m (cell_at r ''title'')) = Some True)"
  by (rule ext, simp)+

lemma list_ex_map: "list_ex P (map f xs) = list_ex (\<lambda>x. P (f x)) xs"
  by (induction xs) simp_all

lemma list_all_map: "list_all P (map f xs) = list_all (\<lambda>x. P (f x)) xs"
  by (induction xs) simp_all

lemma str_accessor_eq:
  "str_accessor df c =
     (if \<not> has_column df c then Inl (KeyError c)
      else if \<not> str_ok df c then Inl AttributeError
      else Inr (map (\<lambda>r. cell_at r c) (rows df)))"
  by (auto simp: str_accessor_def getitem_def str_ok_def list_ex_map list_all_map)

lemma str_contains_eq:
  "str_contains L kw df c =
     (if \<not> has_column df c then Inl (KeyError c)
      else if \<not> str_ok df c then Inl AttributeError
      else case re_compile L kw of
             None \<Rightarrow> Inl ReError
           | Some m \<Rightarrow> Inr (map (\<lambda>r. found m (cell_at r c)) (rows df)))"
  by (simp add: str_contains_def str_accessor_eq split: option.split)

lemma select_by_map:
  "map snd (filter (\<lambda>br. fst br = Some True) (zip (map g rs) rs)) = filter (\<lambda>r. g r = Some True) rs"
  by (induction rs) simp_all

lemma mask_rows_map:
  "mask_rows df (map g (rows df)) =
     (if list_ex (\<lambda>r. g r = None) (rows df) then Inl ValueError
      else Inr (df\<lparr>rows := filter (\<lambda>r. g r = Some True) (rows df)\<rparr>))"
  by (simp add: mask_rows_def select_by_map list_ex_map)

lemma map2_mask_or:
  "map2 mask_or (map ga rs) (map gb rs) = map (\<lambda>r. mask_or (ga r) (gb r)) rs"
  by (induction rs) simp_all

lemma mask_or_not_None: "mask_or a b \<noteq> None"
  by (cases a) simp_all

lemma found_None: "found m v = None \<longleftrightarrow> \<not> is_Str v"
  by (cases v) simp_all

lemma not_all_text: "list_ex (\<lambda>r. found m (cell_at r c) = None) (rows df) \<longleftrightarrow> \<not> all_text df c"
  by (simp add: found_None all_text_def list_ex_iff list_all_iff)

lemma single_filter_eq:
  "(case str_contains L kw t c of Inl e \<Rightarrow> Inl e | Inr bs \<Rightarrow> mask_rows t bs) =
     (if \<not> has_column t c then Inl (KeyError c)
      else if \<not> str_ok t c then Inl AttributeError
      else case re_compile L kw of
             None \<Rightarrow> Inl ReError
           | Some m \<Rightarrow>
               if \<not> all_text t c then Inl ValueError
               else Inr (t\<lparr>rows := filter (\<lambda>r. found m (cell_at r c) = Some True) (rows t)\<rparr>))"
  by (simp add: str_contains_eq mask_rows_map not_all_text split: option.split)

lemma both_filter_eq:
  "result_filter L kw Both t =
     (if \<not> has_column t ''searchTerms'' then Inl (KeyError ''searchTerms'')
      else if \<not> str_ok t ''searchTerms'' then Inl AttributeError
      else case re_compile L kw of
             None \<Rightarrow> Inl ReError
           | Some m \<Rightarrow>
               if \<not> has_column t ''title'' then Inl (KeyError ''title'')
               else if \<not> str_ok t ''title'' then Inl AttributeError
               else Inr (t\<lparr>rows := filter (keep m Both) (rows t)\<rparr>))"
proof -
  have nn: "\<not> list_ex (\<lambda>r. mask_or (ga r) (gb r) = None) rs" for ga gb and rs :: "row list"
    by (simp add: list_ex_iff mask_or_not_None)
  show ?thesis
    by (simp add: result_filter_def str_contains_eq map2_mask_or mask_rows_map nn keep_fun
        split: option.split)
qed

lemma result_filter_eq:
  "result_filter L kw f t =
     (case f of
        Search_Terms \<Rightarrow>
          (if \<not> has_column t ''searchTerms'' then Inl (KeyError ''searchTerms'')
           else if \<not> str_ok t ''searchTerms'' then Inl AttributeError
           else case re_compile L kw of
                  None \<Rightarrow> Inl ReError
                | Some m \<Rightarrow>
                    if \<not> all_text t ''searchTerms'' then Inl ValueError
                    else Inr (t\<lparr>rows := filter (keep m Search_Terms) (rows t)\<rparr>))
      | Title \<Rightarrow>
          (if \<not> has_column t ''title'' then Inl (KeyError ''title'')
           else if \<not> str_ok t ''title'' then Inl AttributeError
           else case re_compile L kw of
                  None \<Rightarrow> Inl ReError
                | Some m \<Rightarrow>
                    if \<not> all_text t ''title'' then Inl ValueError
                    else Inr (t\<lparr>rows := filter (keep m Title) (rows t)\<rparr>))
      | Both \<Rightarrow>
          (if \<not> has_column t ''searchTerms'' then Inl (KeyError ''searchTerms'')
           else if \<not> str_ok t ''searchTerms'' then Inl AttributeError
           else case re_compile L kw of
                  None \<Rightarrow> Inl ReError
                | Some m \<Rightarrow>
                    if \<not> has_column t ''title'' then Inl (KeyError ''title'')
                    else if \<not> str_ok t ''title'' then Inl AttributeError
                    else Inr (t\<lparr>rows := filter (keep m Both) (rows t)\<rparr>)))"
proof (cases f)
  case Search_Terms
  have "result_filter L kw Search_Terms t
        = (case str_contains L kw t ''searchTerms'' of Inl e \<Rightarrow> Inl e | Inr bs \<Rightarrow> mask_rows t bs)"
    by (simp add: result_filter_def)
  then show ?thesis unfolding Search_Terms single_filter_eq by (simp add: keep_fun split: option.split)
next
  case Title
  have "result_filter L kw Title t
        = (case str_contains L kw t ''title'' of Inl e \<Rightarrow> Inl e | Inr bs \<Rightarrow> mask_rows t bs)"
    by (simp add: result_filter_def)
  then show ?thesis unfolding Title single_filter_eq by (simp add: keep_fun split: option.split)
next
  case Both
  show ?thesis unfolding Both both_filter_eq by simp
qed

lemma found_contains: "is_Str v \<Longrightarrow> found m v = Some (contains_keyword m v)"
  by (cases v) simp_all

lemma text_str_ok:
  assumes "column_dtype df c = Object" and "list_all (\<lambda>r. \<not> is_Num (cell_at r c)) (rows df)"
  shows "str_ok df c"
proof (cases "list_ex (\<lambda>r. is_Str (cell_at r c)) (rows df)")
  case True
  then show ?thesis using assms(1) by (simp add: str_ok_def)
next
  case False
  have "is_NaN (cell_at r c)" if "r \<in> set (rows df)" for r
  proof -
    have "\<not> is_Str (cell_at r c)" "\<not> is_Num (cell_at r c)"
      using that False assms(2) by (auto simp: list_ex_iff list_all_iff)
    then show ?thesis by (cases "cell_at r c") simp_all
  qed
  then show ?thesis using assms(1) by (simp add: str_ok_def list_all_iff)
qed

lemma all_text_str_ok: "column_dtype df c = Object \<Longrightarrow> all_text df c \<Longrightarrow> str_ok df c"
proof (rule text_str_ok)
  assume "all_text df c"
  then have "\<not> is_Num (cell_at r c)" if "r \<in> set (rows df)" for r
    using that by (cases "cell_at r c") (auto simp: all_text_def list_all_iff)
  then show "list_all (\<lambda>r. \<not> is_Num (cell_at r c)) (rows df)" by (simp add: list_all_iff)
qed

lemma keep_spec:
  assumes "list_all (\<lambda>c. is_Str (cell_at r c)) (selected_columns f)"
  shows "keep m f r = list_ex (\<lambda>c. contains_keyword m (cell_at r c)) (selected_columns f)"
  using assms by (cases f) (auto simp: found_contains)

lemma filter_spec:
  assumes "list_all (text_column t) (selected_columns f)"
  shows "t\<lparr>rows := filter (keep m f) (rows t)\<rparr> = spec_filter m f t"
proof -
  have "list_all (\<lambda>c. is_Str (cell_at r c)) (selected_columns f)" if "r \<in> set (rows t)" for r
    using assms that by (cases f) (auto simp: text_column_def all_text_def list_all_iff)
  then have "filter (keep m f) (rows t)
      = filter (\<lambda>r. list_ex (\<lambda>c. contains_keyword m (cell_at r c)) (selected_columns f)) (rows t)"
    by (intro filter_cong refl keep_spec)
  then show ?thesis by (simp add: spec_filter_def)
qed

lemma occurs_in_Nil: "occurs_in [] s"
  by (cases s) simp_all

text \<open>
  Claim C2, amended. For every keyword that compiles as a regular expression, every field
  selector and every table whose selected columns are text columns, the filter returns the
  table restricted to exactly the rows whose selected field (either field, for both)
  contains the keyword; for the empty keyword it returns the table unchanged; and for a
  keyword of plain ASCII characters, containing means occurring in an ASCII string as a
  substring, letters compared without case.
\<close>

theorem filter_returns_matching_rows:
  assumes "re_compile L kw = Some m" and "list_all (text_column t) (selected_columns f)"
  shows "result_filter L kw f t = Inr (spec_filter m f t)
         \<and> (kw = [] \<longrightarrow> result_filter L kw f t = Inr t)
         \<and> (plain kw \<longrightarrow> (\<forall>s. ascii s \<longrightarrow> m s = occurs_in (lower kw) (lower s)))"
proof -
  have ok: "has_column t c \<and> str_ok t c \<and> all_text t c" if "c \<in> set (selected_columns f)" for c
    using assms(2) that by (auto simp: list_all_iff text_column_def all_text_str_ok)
  have "result_filter L kw f t = Inr (t\<lparr>rows := filter (keep m f) (rows t)\<rparr>)"
    unfolding result_filter_eq using ok assms(1) by (cases f) simp_all
  then have a: "result_filter L kw f t = Inr (spec_filter m f t)"
    by (simp only: filter_spec [OF assms(2)])
  have b: "result_filter L kw f t = Inr t" if "kw = []"
  proof -
    have m: "m = (\<lambda>s. True)" using assms(1) that by (simp add: re_compile_def)
    have ck: "contains_keyword (\<lambda>s. True) v" if "is_Str v" for v
      using that by (cases v) simp_all
    have "list_ex (\<lambda>c. contains_keyword m (cell_at r c)) (selected_columns f)"
      if "r \<in> set (rows t)" for r
    proof -
      have "is_Str (cell_at r c)" if "c \<in> set (selected_columns f)" for c
        using ok [OF that] \<open>r \<in> set (rows t)\<close> by (simp add: all_text_def list_all_iff)
      then show ?thesis unfolding m by (cases f) (simp_all add: ck)
    qed
    then have "spec_filter m f t = t" by (simp add: spec_filter_def)
    then show ?thesis using a by simp
  qed
  have c: "m s = occurs_in (lower kw) (lower s)" if "plain kw" "ascii s" for s
  proof (cases "kw = []")
    case True
    then have "m = (\<lambda>s. True)" using assms(1) by (simp add: re_compile_def)
    then show ?thesis using True by (simp add: lower_def occurs_in_Nil)
  next
    case False
    then have "hd kw \<in> set kw" by simp
    then have "hd kw \<notin> set special_chars" using that(1) by (simp add: plain_def list_all_iff)
    then have "hd kw \<notin> set ''*+?''" by (auto simp: special_chars_def)
    then have "m = (\<lambda>s. if ascii s then occurs_in (lower kw) (lower s) else re_search L kw s)"
      using assms(1) False that(1) by (simp add: re_compile_def)
    then show ?thesis using that(2) by simp
  qed
  show ?thesis using a b c by blast
qed

lemma example_compile:
  "re_compile example_textlib ''serp''
   = Some (\<lambda>s. if ascii s then occurs_in ''serp'' (lower s) else False)"
  by (simp add: re_compile_def plain_def ascii_def special_chars_def lower_def lower_char_def
      example_textlib_def)

lemma example_text_columns:
  "text_column example_table ''searchTerms''" "text_column example_table ''title''"
  by (simp_all add: text_column_def has_column_def column_dtype_def all_text_def cell_at_def
      example_table_def)

lemma example_kept:
  "spec_filter (\<lambda>s. if ascii s then occurs_in ''serp'' (lower s) else False) Title example_table
   = example_table\<lparr>rows := [rows example_table ! 0, rows example_table ! 2]\<rparr>"
  by (simp add: spec_filter_def cell_at_def example_table_def ascii_def lower_def lower_char_def)

theorem filter_returns_matching_rows_witness:
  "(\<exists>m. re_compile example_textlib ''serp'' = Some m)
   \<and> list_all (text_column example_table) (selected_columns Title)
   \<and> result_filter example_textlib ''serp'' Title example_table
       = Inr (example_table\<lparr>rows := [rows example_table ! 0, rows example_table ! 2]\<rparr>)"
proof -
  have h: "list_all (text_column example_table) (selected_columns Title)"
    by (simp add: example_text_columns)
  from filter_returns_matching_rows [OF example_compile h]
  have "result_filter example_textlib ''serp'' Title example_table
        = Inr (example_table\<lparr>rows := [rows example_table ! 0, rows example_table ! 2]\<rparr>)"
    by (simp only: example_kept)
  then show ?thesis using example_compile h by blast
qed

text \<open>
  As stated, for every keyword, claim C2 fails: the keyword \<^verbatim>\<open>*\<close> is not a regular
  expression, and the filter raises instead of returning rows.
\<close>

theorem filter_invalid_keyword_counterexample:
  "result_filter example_textlib ''*'' Title example_table = Inl ReError"
  by (simp add: result_filter_eq example_text_columns [unfolded text_column_def] all_text_str_ok
      re_compile_def)

lemma kept_frame:
  "has_column (t\<lparr>rows := rs\<rparr>) c = has_column t c"
  "column_dtype (t\<lparr>rows := rs\<rparr>) c = column_dtype t c"
  by (simp_all add: has_column_def column_dtype_def)

lemma all_text_kept:
  assumes "\<And>r. r \<in> set (rows t) \<Longrightarrow> P r \<Longrightarrow> is_Str (cell_at r c)"
  shows "all_text (t\<lparr>rows := filter P (rows t)\<rparr>) c"
  using assms by (simp add: all_text_def list_all_iff)

lemma keep_first_text:
  "keep m Search_Terms r \<Longrightarrow> is_Str (cell_at r ''searchTerms'')"
  "keep m Title r \<Longrightarrow> is_Str (cell_at r ''title'')"
  "keep m Both r \<Longrightarrow> is_Str (cell_at r ''searchTerms'')"
  by (cases "cell_at r ''searchTerms''"; cases "cell_at r ''title''"; simp)+

lemma refilter:
  "(t\<lparr>rows := filter P (rows t)\<rparr>)\<lparr>rows := filter P (rows (t\<lparr>rows := filter P (rows t)\<rparr>))\<rparr>
   = t\<lparr>rows := filter P (rows t)\<rparr>"
  by simp

text \<open>
  Claim C8, amended. When the filter returns a table, filtering that table again by the same
  keyword and field returns it unchanged, provided that, for the field selector both, the
  title column of the original table holds no number.
\<close>

theorem filter_idempotent:
  assumes "result_filter L kw f t = Inr t'" and "f = Both \<longrightarrow> no_numbers t ''title''"
  shows "result_filter L kw f t' = Inr t'"
proof (cases f)
  case Search_Terms
  from assms(1) obtain m where m: "re_compile L kw = Some m"
    and c: "has_column t ''searchTerms''" "str_ok t ''searchTerms''"
    and t': "t' = t\<lparr>rows := filter (keep m Search_Terms) (rows t)\<rparr>"
    unfolding result_filter_eq Search_Terms
    by (auto split: if_splits option.splits)
  have d: "column_dtype t ''searchTerms'' = Object" using c(2) by (simp add: str_ok_def)
  have a: "all_text t' ''searchTerms''"
    unfolding t' by (rule all_text_kept) (rule keep_first_text)
  have "str_ok t' ''searchTerms''"
    by (rule all_text_str_ok [OF _ a]) (simp add: t' kept_frame d)
  moreover have "has_column t' ''searchTerms''" using c(1) by (simp add: t' kept_frame)
  ultimately have "result_filter L kw Search_Terms t'
      = Inr (t'\<lparr>rows := filter (keep m Search_Terms) (rows t')\<rparr>)"
    unfolding result_filter_eq using m a by simp
  then show ?thesis unfolding Search_Terms t' by (simp only: refilter)
next
  case Title
  from assms(1) obtain m where m: "re_compile L kw = Some m"
    and c: "has_column t ''title''" "str_ok t ''title''"
    and t': "t' = t\<lparr>rows := filter (keep m Title) (rows t)\<rparr>"
    unfolding result_filter_eq Title
    by (auto split: if_splits option.splits)
  have d: "column_dtype t ''title'' = Object" using c(2) by (simp add: str_ok_def)
  have a: "all_text t' ''title''"
    unfolding t' by (rule all_text_kept) (rule keep_first_text)
  have "str_ok t' ''title''"
    by (rule all_text_str_ok [OF _ a]) (simp add: t' kept_frame d)
  moreover have "has_column t' ''title''" using c(1) by (simp add: t' kept_frame)
  ultimately have "result_filter L kw Title t'
      = Inr (t'\<lparr>rows := filter (keep m Title) (rows t')\<rparr>)"
    unfolding result_filter_eq using m a by simp
  then show ?thesis unfolding Title t' by (simp only: refilter)
next
  case Both
  from assms(1) obtain m where m: "re_compile L kw = Some m"
    and c: "has_column t ''searchTerms''" "str_ok t ''searchTerms''"
           "has_column t ''title''" "str_ok t ''title''"
    and t': "t' = t\<lparr>rows := filter (keep m Both) (rows t)\<rparr>"
    unfolding result_filter_eq Both
    by (auto split: if_splits option.splits)
  have d: "column_dtype t ''searchTerms'' = Object" "column_dtype t ''title'' = Object"
    using c(2,4) by (simp_all add: str_ok_def)
  have a: "all_text t' ''searchTerms''"
    unfolding t' by (rule all_text_kept) (rule keep_first_text)
  have s1: "str_ok t' ''searchTerms''"
    by (rule all_text_str_ok [OF _ a]) (simp add: t' kept_frame d)
  have "no_numbers t ''title''" using assms(2) Both by simp
  then have "list_all (\<lambda>r. \<not> is_Num (cell_at r ''title'')) (rows t')"
    by (simp add: t' no_numbers_def list_all_iff)
  then have s2: "str_ok t' ''title''"
    by (rule text_str_ok [rotated]) (simp add: t' kept_frame d)
  have h: "has_column t' ''searchTerms''" "has_column t' ''title''"
    using c(1,3) by (simp_all add: t' kept_frame)
  have "result_filter L kw Both t' = Inr (t'\<lparr>rows := filter (keep m Both) (rows t')\<rparr>)"
    unfolding result_filter_eq using m s1 s2 h by simp
  then show ?thesis unfolding Both t' by (simp only: refilter)
qed

lemma example_both:
  "result_filter example_textlib ''serp'' Both example_table
   = Inr (example_table\<lparr>rows := [rows example_table ! 0, rows example_table ! 2]\<rparr>)"
proof -
  have h: "list_all (text_column example_table) (selected_columns Both)"
    by (simp add: example_text_columns)
  have "spec_filter (\<lambda>s. if ascii s then occurs_in ''serp'' (lower s) else False) Both example_table
        = example_table\<lparr>rows := [rows example_table ! 0, rows example_table ! 2]\<rparr>"
    by (simp add: spec_filter_def cell_at_def example_table_def ascii_def lower_def lower_char_def)
  then show ?thesis
    using filter_spec [OF h] example_compile example_text_columns
    by (simp add: result_filter_eq text_column_def all_text_str_ok)
qed

theorem filter_idempotent_witness:
  "result_filter example_textlib ''serp'' Both example_table
     = Inr (example_table\<lparr>rows := [rows example_table ! 0, rows example_table ! 2]\<rparr>)
   \<and> no_numbers example_table ''title''
   \<and> result_filter example_textlib ''serp'' Both
        (example_table\<lparr>rows := [rows example_table ! 0, rows example_table ! 2]\<rparr>)
     = Inr (example_table\<lparr>rows := [rows example_table ! 0, rows example_table ! 2]\<rparr>)"
proof -
  have n: "no_numbers example_table ''title''"
    by (simp add: no_numbers_def cell_at_def example_table_def)
  then have "Both = Both \<longrightarrow> no_numbers example_table ''title''" by simp
  from filter_idempotent [OF example_both this] show ?thesis using example_both n by simp
qed

lemma mixed_once:
  "result_filter example_textlib ''serp'' Both mixed_table
   = Inr (mixed_table\<lparr>rows := [rows mixed_table ! 0]\<rparr>)"
  by (simp add: result_filter_eq example_compile str_ok_def has_column_def column_dtype_def
      cell_at_def mixed_table_def ascii_def lower_def lower_char_def)

text \<open>
  As stated, for every table, claim C8 fails: filtering \<open>mixed_table\<close> by both fields keeps
  the row whose title is a number; in the result the title column holds nothing but that
  number, the string accessor refuses it, and the second filtering raises.
\<close>

theorem filter_idempotent_counterexample:
  "result_filter example_textlib ''serp'' Both mixed_table
     = Inr (mixed_table\<lparr>rows := [rows mixed_table ! 0]\<rparr>)
   \<and> result_filter example_textlib ''serp'' Both (mixed_table\<lparr>rows := [rows mixed_table ! 0]\<rparr>)
     = Inl AttributeError"
proof -
  have "result_filter example_textlib ''serp'' Both (mixed_table\<lparr>rows := [rows mixed_table ! 0]\<rparr>)
        = Inl AttributeError"
    by (simp add: result_filter_eq example_compile str_ok_def has_column_def column_dtype_def
        cell_at_def mixed_table_def)
  with mixed_once show ?thesis by simp
qed

text \<open>
  A missing title makes the filter by title raise, whatever the keyword: the mask holds a
  missing value.
\<close>

lemma filter_missing_title_raises:
  "result_filter example_textlib [] Title
     (example_table\<lparr>rows := (NaN, [(''searchTerms'', Str ''seo'')]) # rows example_table\<rparr>)
   = Inl ValueError"
  by (simp add: result_filter_eq re_compile_def str_ok_def all_text_def has_column_def
      column_dtype_def cell_at_def example_table_def)

section \<open>The derived metrics\<close>

lemma cell_at_upd: "cell_at (upd c g r) c' = (if c' = c then g r else cell_at r c')"
  by (simp add: upd_def cell_at_def update_conv')

lemma fst_upd: "fst (upd c g r) = fst r"
  by (simp add: upd_def)

lemma assign_upd:
  "assign df c d g = df\<lparr>columns := AList.update c d (columns df), rows := map (upd c g) (rows df)\<rparr>"
  by (simp add: assign_def upd_def)

lemma rows_assign: "rows (assign df c d g) = map (upd c g) (rows df)"
  by (simp add: assign_upd)

lemma columns_assign: "columns (assign df c d g) = AList.update c d (columns df)"
  by (simp add: assign_upd)

lemma has_column_assign: "has_column (assign df c d g) c' \<longleftrightarrow> c' = c \<or> has_column df c'"
  by (auto simp: assign_upd has_column_def update_conv')

lemma column_dtype_assign:
  "column_dtype (assign df c d g) c' = (if c' = c then d else column_dtype df c')"
  by (simp add: assign_upd column_dtype_def update_conv')

lemma index_name_assign: "index_name (assign df c d g) = index_name df"
  by (simp add: assign_upd)

lemma cells_assign:
  "map (\<lambda>r. cell_at r c') (rows (assign df c d g))
   = (if c' = c then map g (rows df) else map (\<lambda>r. cell_at r c') (rows df))"
  by (simp add: rows_assign cell_at_upd comp_def)

lemma labels_assign: "map fst (rows (assign df c d g)) = map fst (rows df)"
  by (simp add: rows_assign fst_upd comp_def)

lemma arith_eq:
  "arith g src dst df =
     (if \<not> has_column df src then Inl (KeyError src)
      else if list_ex (\<lambda>r. is_Str (cell_at r src)) (rows df) then Inl TypeError
      else Inr (assign df dst Numeric (\<lambda>r. arith_cell g (cell_at r src))))"
  by (simp add: arith_def getitem_def list_ex_iff)

lemma add_title_length_eq:
  "add_title_length df =
     (if \<not> has_column df ''title'' then Inl (KeyError ''title'')
      else if \<not> str_ok df ''title'' then Inl AttributeError
      else Inr (measured df))"
  by (simp add: add_title_length_def str_accessor_eq measured_def)

lemma all_numbers_no_text:
  "all_numbers df c \<Longrightarrow> \<not> list_ex (\<lambda>r. is_Str (cell_at r c)) (rows df)"
  by (auto simp: all_numbers_def list_all_iff list_ex_iff is_Num_def)

lemma all_numbers_assign_other:
  "c \<noteq> c' \<Longrightarrow> all_numbers (assign df c' d g) c = all_numbers df c"
  by (simp add: all_numbers_def rows_assign list_all_iff cell_at_upd)

lemma all_numbers_assign_arith:
  assumes "all_numbers df src"
  shows "all_numbers (assign df dst d (\<lambda>r. arith_cell g (cell_at r src))) dst"
proof -
  have "is_Num (arith_cell g (cell_at r src))" if "r \<in> set (rows df)" for r
  proof -
    from assms that have "is_Num (cell_at r src)" by (simp add: all_numbers_def list_all_iff)
    then show ?thesis by (cases "cell_at r src") simp_all
  qed
  then show ?thesis by (simp add: all_numbers_def rows_assign list_all_iff cell_at_upd)
qed

lemma all_numbers_selected:
  "all_numbers df c \<Longrightarrow> all_numbers (df\<lparr>rows := filter P (rows df)\<rparr>) c"
  by (simp add: all_numbers_def list_all_iff)

lemma arith_numbers:
  assumes "has_column df src" and "all_numbers df src"
  shows "arith g src dst df = Inr (assign df dst Numeric (\<lambda>r. arith_cell g (cell_at r src)))"
  using assms(1) all_numbers_no_text [OF assms(2)] by (simp add: arith_eq)

lemma result_filter_Inr:
  assumes "result_filter L kw f t = Inr t'"
  shows "\<exists>m. re_compile L kw = Some m \<and> t' = t\<lparr>rows := filter (keep m f) (rows t)\<rparr>"
  using assms unfolding result_filter_eq
  by (cases f) (auto split: if_splits option.splits)

text \<open>The first statements, up to the filter, raise only when there is no title column.\<close>

lemma scored_stage:
  assumes "has_column t ''title''"
  shows "add_sentiment L t = Inr (assign t ''sentiment'' Numeric (\<lambda>r. Num (sentiment_of L r)))"
    and "arith (\<lambda>x. x + 1) ''sentiment'' ''sentiment_positive''
           (assign t ''sentiment'' Numeric (\<lambda>r. Num (sentiment_of L r))) = Inr (scored L t)"
    and "getitems (scored L t) [''title'', ''sentiment''] = None"
    and "chart (scored L t) [''sentiment''] = None"
    and "has_column (scored L t) ''sentiment_positive''"
    and "all_numbers (scored L t) ''sentiment_positive''"
proof -
  let ?c1 = "assign t ''sentiment'' Numeric (\<lambda>r. Num (sentiment_of L r))"
  show "add_sentiment L t = Inr ?c1"
    using assms by (simp add: add_sentiment_def sentiment_of_def)
  have n: "all_numbers ?c1 ''sentiment''"
    by (simp add: all_numbers_def rows_assign list_all_iff cell_at_upd)
  have h: "has_column ?c1 ''sentiment''" by (simp add: has_column_assign)
  show "arith (\<lambda>x. x + 1) ''sentiment'' ''sentiment_positive'' ?c1 = Inr (scored L t)"
    unfolding scored_def by (rule arith_numbers [OF h n])
  show "getitems (scored L t) [''title'', ''sentiment''] = None"
    using assms by (simp add: getitems_def scored_def has_column_assign)
  show "chart (scored L t) [''sentiment''] = None"
    by (simp add: chart_def scored_def has_column_assign)
  show "has_column (scored L t) ''sentiment_positive''"
    by (simp add: scored_def has_column_assign)
  show "all_numbers (scored L t) ''sentiment_positive''"
    unfolding scored_def by (rule all_numbers_assign_arith [OF n])
qed

text \<open>The statements after the filter, on a selection of the rows of the scored table.\<close>

lemma bubbled_stage:
  assumes "has_column res0 ''sentiment_positive''" and "all_numbers res0 ''sentiment_positive''"
  shows "arith (\<lambda>x. x * 20 + 10) ''sentiment_positive'' ''bubble_size''
           (assign res0 ''bubble_size'' Numeric (\<lambda>r. Num 35)) = Inr (bubbled res0)"
    and "has_column (bubbled res0) ''sentiment_positive''"
    and "all_numbers (bubbled res0) ''sentiment_positive''"
proof -
  let ?r = "assign res0 ''bubble_size'' Numeric (\<lambda>r. Num 35)"
  have h: "has_column ?r ''sentiment_positive''" using assms(1) by (simp add: has_column_assign)
  have n: "all_numbers ?r ''sentiment_positive''"
    using assms(2) by (simp add: all_numbers_assign_other)
  show "arith (\<lambda>x. x * 20 + 10) ''sentiment_positive'' ''bubble_size'' ?r = Inr (bubbled res0)"
    unfolding bubbled_def by (rule arith_numbers [OF h n])
  show "has_column (bubbled res0) ''sentiment_positive''"
    using assms(1) by (simp add: bubbled_def has_column_assign)
  show "all_numbers (bubbled res0) ''sentiment_positive''"
    using assms(2) by (simp add: bubbled_def all_numbers_assign_other)
qed

lemma sized_stage:
  assumes "has_column res1 ''sentiment_positive''" and "all_numbers res1 ''sentiment_positive''"
  shows "arith (\<lambda>x. x * 20 + 10) ''sentiment_positive'' ''sentiment_size'' (measured res1)
         = Inr (sized (measured res1))"
proof -
  have h: "has_column (measured res1) ''sentiment_positive''"
    using assms(1) by (simp add: measured_def has_column_assign)
  have n: "all_numbers (measured res1) ''sentiment_positive''"
    using assms(2) by (simp add: measured_def all_numbers_assign_other)
  show ?thesis unfolding sized_def by (rule arith_numbers [OF h n])
qed

lemma last_chart:
  assumes "chart res1 [''displayLink'', ''rank'', ''link'', ''searchTerms'', ''title'',
                       ''sentiment'', ''bubble_size''] = None"
  shows "chart (sized (measured res1)) [''title_length'', ''rank'', ''displayLink'', ''sentiment_size'']
         = None"
  using assms by (simp add: chart_def sized_def measured_def has_column_assign split: if_splits)

text \<open>The run of the script, by the statement that raises.\<close>

lemma derived_metrics_eq:
  "derived_metrics L kw f t =
     (if \<not> has_column t ''title''
      then \<lparr>raised = Some (KeyError ''title''), session_csv = t, results = None\<rparr>
      else case result_filter L kw f (scored L t) of
             Inl e \<Rightarrow> \<lparr>raised = Some e, session_csv = scored L t, results = None\<rparr>
           | Inr res0 \<Rightarrow>
               if chart (bubbled res0) [''displayLink'', ''rank'', ''link'', ''searchTerms'', ''title'',
                                        ''sentiment'', ''bubble_size''] \<noteq> None
               then \<lparr>raised = Some ValueError, session_csv = scored L t, results = Some (bubbled res0)\<rparr>
               else if \<not> str_ok (bubbled res0) ''title''
               then \<lparr>raised = Some AttributeError, session_csv = scored L t,
                      results = Some (bubbled res0)\<rparr>
               else \<lparr>raised = None, session_csv = scored L t,
                      results = Some (sized (measured (bubbled res0)))\<rparr>)"
proof (cases "has_column t ''title''")
  case False
  then show ?thesis by (simp add: derived_metrics_def add_sentiment_def)
next
  case True
  note st = scored_stage [OF True, of L]
  let ?names = "[''displayLink'', ''rank'', ''link'', ''searchTerms'', ''title'',
                 ''sentiment'', ''bubble_size'']"
  let ?rhs = "\<lambda>x. (case x of
             Inl e \<Rightarrow> \<lparr>raised = Some e, session_csv = scored L t, results = None\<rparr>
           | Inr res0 \<Rightarrow>
               if chart (bubbled res0) ?names \<noteq> None
               then \<lparr>raised = Some ValueError, session_csv = scored L t, results = Some (bubbled res0)\<rparr>
               else if \<not> str_ok (bubbled res0) ''title''
               then \<lparr>raised = Some AttributeError, session_csv = scored L t,
                      results = Some (bubbled res0)\<rparr>
               else \<lparr>raised = None, session_csv = scored L t,
                      results = Some (sized (measured (bubbled res0)))\<rparr>)"
  have "derived_metrics L kw f t = ?rhs (result_filter L kw f (scored L t))"
  proof (cases "result_filter L kw f (scored L t)")
    case (Inl e)
    have "derived_metrics L kw f t = \<lparr>raised = Some e, session_csv = scored L t, results = None\<rparr>"
      by (simp only: derived_metrics_def st(1,2,3,4) Inl sum.case option.case)
    then show ?thesis by (simp only: Inl sum.case)
  next
    case (Inr res0)
    from result_filter_Inr [OF Inr] obtain m where
      r0: "res0 = (scored L t)\<lparr>rows := filter (keep m f) (rows (scored L t))\<rparr>"
      by (elim exE conjE) iprover
    have h0: "has_column res0 ''sentiment_positive''"
      using st(5) by (simp add: r0 has_column_def)
    have n0: "all_numbers res0 ''sentiment_positive''"
      unfolding r0 by (rule all_numbers_selected [OF st(6)])
    note bs = bubbled_stage [OF h0 n0]
    have "has_column (scored L t) ''title''"
      using True by (simp add: scored_def has_column_assign)
    then have "has_column res0 ''title''" by (simp add: r0 has_column_def)
    then have ht: "has_column (bubbled res0) ''title''"
      by (simp add: bubbled_def has_column_assign)
    show ?thesis
    proof (cases "chart (bubbled res0) ?names")
      case (Some e)
      then have e: "e = ValueError" by (simp add: chart_def split: if_splits)
      have "derived_metrics L kw f t
            = \<lparr>raised = Some ValueError, session_csv = scored L t, results = Some (bubbled res0)\<rparr>"
        by (simp only: derived_metrics_def st(1,2,3,4) Inr bs(1) Some e sum.case option.case)
      then show ?thesis by (simp add: Inr Some)
    next
      case None
      show ?thesis
      proof (cases "str_ok (bubbled res0) ''title''")
        case False
        have tl: "add_title_length (bubbled res0) = Inl AttributeError"
          using ht False by (simp add: add_title_length_eq)
        have "derived_metrics L kw f t
              = \<lparr>raised = Some AttributeError, session_csv = scored L t,
                  results = Some (bubbled res0)\<rparr>"
          by (simp only: derived_metrics_def st(1,2,3,4) Inr bs(1) None tl sum.case option.case)
        then show ?thesis using False by (simp add: Inr None)
      next
        case ok: True
        have tl: "add_title_length (bubbled res0) = Inr (measured (bubbled res0))"
          using ht ok by (simp add: add_title_length_eq)
        note sz = sized_stage [OF bs(2,3)]
        note lc = last_chart [OF None]
        have "derived_metrics L kw f t
              = \<lparr>raised = None, session_csv = scored L t,
                  results = Some (sized (measured (bubbled res0)))\<rparr>"
          by (simp only: derived_metrics_def st(1,2,3,4) Inr bs(1) None tl sz lc sum.case option.case)
        then show ?thesis using ok by (simp add: Inr None)
      qed
    qed
  qed
  then show ?thesis using True by simp
qed

lemma derived_metrics_completes:
  assumes "raised (derived_metrics L kw f t) = None"
  shows "\<exists>m res0. has_column t ''title''
           \<and> res0 = (scored L t)\<lparr>rows := filter (keep m f) (rows (scored L t))\<rparr>
           \<and> result_filter L kw f (scored L t) = Inr res0
           \<and> derived_metrics L kw f t
               = \<lparr>raised = None, session_csv = scored L t,
                   results = Some (sized (measured (bubbled res0)))\<rparr>"
proof -
  have t: "has_column t ''title''"
    using assms unfolding derived_metrics_eq by (simp split: if_splits)
  from assms obtain res0 where f: "result_filter L kw f (scored L t) = Inr res0"
    unfolding derived_metrics_eq using t
    by (cases "result_filter L kw f (scored L t)") simp_all
  from result_filter_Inr [OF f] obtain m where
    r0: "res0 = (scored L t)\<lparr>rows := filter (keep m f) (rows (scored L t))\<rparr>"
    by (elim exE conjE) iprover
  have "derived_metrics L kw f t
        = \<lparr>raised = None, session_csv = scored L t, results = Some (sized (measured (bubbled res0)))\<rparr>"
    using assms unfolding derived_metrics_eq using t by (simp add: f split: if_splits)
  with t r0 f show ?thesis by (intro exI [of _ m] exI [of _ res0] conjI)
qed

subsection \<open>The tables on the way\<close>

lemma scored_frame:
  "index_name (scored L t) = index_name t"
  "map fst (rows (scored L t)) = map fst (rows t)"
  "has_column (scored L t) c \<longleftrightarrow> c = ''sentiment'' \<or> c = ''sentiment_positive'' \<or> has_column t c"
  "column_dtype (scored L t) c
     = (if c = ''sentiment'' \<or> c = ''sentiment_positive'' then Numeric else column_dtype t c)"
  by (auto simp: scored_def index_name_assign labels_assign has_column_assign column_dtype_assign)

lemma scored_cells:
  "map (\<lambda>r. cell_at r c) (rows (scored L t))
   = (if c = ''sentiment_positive'' then map (\<lambda>r. Num (sentiment_of L r + 1)) (rows t)
      else if c = ''sentiment'' then map (\<lambda>r. Num (sentiment_of L r)) (rows t)
      else map (\<lambda>r. cell_at r c) (rows t))"
  by (simp add: scored_def rows_assign cell_at_upd comp_def)

lemma scored_rows:
  assumes "\<forall>s. - 1 \<le> polarity L s \<and> polarity L s \<le> 1"
  shows "list_all scored_row (rows (scored L t))"
proof -
  have b: "- 1 \<le> sentiment_of L r \<and> sentiment_of L r \<le> 1" for r
    using assms by (simp add: sentiment_of_def)
  have c: "0 \<le> sentiment_of L r + 1" for r using b [of r] by linarith
  show ?thesis
    by (simp add: scored_def rows_assign list_all_iff scored_row_def cell_at_upd b c)
qed

lemma bubbled_frame:
  "index_name (bubbled x) = index_name x"
  "map fst (rows (bubbled x)) = map fst (rows x)"
  "has_column (bubbled x) c \<longleftrightarrow> c = ''bubble_size'' \<or> has_column x c"
  "column_dtype (bubbled x) c = (if c = ''bubble_size'' then Numeric else column_dtype x c)"
  by (auto simp: bubbled_def index_name_assign labels_assign has_column_assign column_dtype_assign)

lemma bubbled_cells:
  "map (\<lambda>r. cell_at r c) (rows (bubbled x))
   = (if c = ''bubble_size''
      then map (\<lambda>r. arith_cell (\<lambda>x. x * 20 + 10) (cell_at r ''sentiment_positive'')) (rows x)
      else map (\<lambda>r. cell_at r c) (rows x))"
  by (simp add: bubbled_def rows_assign cell_at_upd comp_def)

lemma measured_frame:
  "index_name (measured x) = index_name x"
  "map fst (rows (measured x)) = map fst (rows x)"
  "has_column (measured x) c \<longleftrightarrow> c = ''title_length'' \<or> has_column x c"
  "column_dtype (measured x) c = (if c = ''title_length'' then Numeric else column_dtype x c)"
  by (auto simp: measured_def index_name_assign labels_assign has_column_assign column_dtype_assign)

lemma measured_cells:
  "map (\<lambda>r. cell_at r c) (rows (measured x))
   = (if c = ''title_length'' then map (\<lambda>r. str_len (cell_at r ''title'')) (rows x)
      else map (\<lambda>r. cell_at r c) (rows x))"
  by (simp add: measured_def rows_assign cell_at_upd comp_def)

lemma sized_frame:
  "index_name (sized x) = index_name x"
  "map fst (rows (sized x)) = map fst (rows x)"
  "has_column (sized x) c \<longleftrightarrow> c = ''sentiment_size'' \<or> has_column x c"
  "column_dtype (sized x) c = (if c = ''sentiment_size'' then Numeric else column_dtype x c)"
  by (auto simp: sized_def index_name_assign labels_assign has_column_assign column_dtype_assign)

lemma sized_cells:
  "map (\<lambda>r. cell_at r c) (rows (sized x))
   = (if c = ''sentiment_size''
      then map (\<lambda>r. arith_cell (\<lambda>x. x * 20 + 10) (cell_at r ''sentiment_positive'')) (rows x)
      else map (\<lambda>r. cell_at r c) (rows x))"
  by (simp add: sized_def rows_assign cell_at_upd comp_def)

lemma through_cells:
  assumes "map (\<lambda>r. cell_at r c) xs = map (\<lambda>r. cell_at r c) ys"
  shows "map (\<lambda>r. F (cell_at r c)) xs = map (\<lambda>r. F (cell_at r c)) ys"
proof -
  have "map (\<lambda>r. F (cell_at r c)) xs = map F (map (\<lambda>r. cell_at r c) xs)" by (simp add: comp_def)
  also have "\<dots> = map F (map (\<lambda>r. cell_at r c) ys)" by (simp only: assms)
  also have "\<dots> = map (\<lambda>r. F (cell_at r c)) ys" by (simp add: comp_def)
  finally show ?thesis .
qed

text \<open>What claim C1 says of a row survives the later assignments.\<close>

lemma scored_row_upd:
  "c \<noteq> ''sentiment'' \<Longrightarrow> c \<noteq> ''sentiment_positive'' \<Longrightarrow> scored_row (upd c g r) = scored_row r"
  by (simp add: scored_row_def cell_at_upd)

lemma sized_row_upd:
  "c \<noteq> ''bubble_size'' \<Longrightarrow> c \<noteq> ''sentiment_positive'' \<Longrightarrow> sized_row (upd c g r) = sized_row r"
  by (simp add: sized_row_def cell_at_upd)

lemma sized_row_bubble:
  assumes "scored_row r"
  shows "sized_row (upd ''bubble_size'' (\<lambda>r. arith_cell (\<lambda>x. x * 20 + 10) (cell_at r ''sentiment_positive''))
                     (upd ''bubble_size'' g r))"
proof -
  from assms obtain x y where
    "cell_at r ''sentiment'' = Num x" "cell_at r ''sentiment_positive'' = Num y"
    by (cases "cell_at r ''sentiment''"; cases "cell_at r ''sentiment_positive''")
       (simp_all add: scored_row_def)
  then show ?thesis by (simp add: sized_row_def cell_at_upd)
qed

lemma bubbled_rows:
  assumes "list_all scored_row (rows x)"
  shows "list_all (\<lambda>r. scored_row r \<and> sized_row r) (rows (bubbled x))"
  using assms
  by (simp add: bubbled_def rows_assign list_all_iff scored_row_upd sized_row_bubble)

lemma sized_measured_rows:
  assumes "list_all (\<lambda>r. scored_row r \<and> sized_row r) (rows x)"
  shows "list_all (\<lambda>r. scored_row r \<and> sized_row r) (rows (sized (measured x)))"
  using assms
  by (simp add: sized_def measured_def rows_assign list_all_iff scored_row_upd sized_row_upd)

text \<open>The filtered copy, wherever the script stops after the filter.\<close>

lemma results_after_filter:
  assumes "has_column t ''title''" and "result_filter L kw f (scored L t) = Inr res0"
  shows "results (derived_metrics L kw f t) = Some (bubbled res0)
         \<or> results (derived_metrics L kw f t) = Some (sized (measured (bubbled res0)))"
  unfolding derived_metrics_eq using assms by simp

lemma session_csv_scored:
  assumes "has_column t ''title''"
  shows "session_csv (derived_metrics L kw f t) = scored L t"
  unfolding derived_metrics_eq using assms
  by (cases "result_filter L kw f (scored L t)") simp_all

subsection \<open>The values of the derived columns\<close>

text \<open>
  Claim C1, amended. When the polarity scorer stays within \<open>[-1, 1]\<close> and the unified table
  has a title column, the script leaves the unified table with a sentiment column and a
  shifted sentiment column, whatever it raises later: every row has as sentiment the
  polarity of its title's text, a value in \<open>[-1, 1]\<close>, and as shifted sentiment that value
  plus one, in \<open>[0, 2]\<close>. Whenever the filter returns a table, the script makes the filtered
  copy of it, with the rows of the filter's result in order and a bubble size column, and
  every row of the copy has, besides its two scores, a bubble size of twenty times its
  shifted sentiment plus ten.
\<close>

theorem metrics_values:
  assumes "\<forall>s. - 1 \<le> polarity L s \<and> polarity L s \<le> 1" and "has_column t ''title''"
  shows "\<exists>csv. session_csv (derived_metrics L kw f t) = csv
           \<and> has_column csv ''sentiment'' \<and> has_column csv ''sentiment_positive''
           \<and> map (\<lambda>r. cell_at r ''sentiment'') (rows csv) = map (\<lambda>r. Num (sentiment_of L r)) (rows t)
           \<and> list_all scored_row (rows csv)
           \<and> (\<forall>res0. result_filter L kw f csv = Inr res0 \<longrightarrow>
                 (\<exists>res. results (derived_metrics L kw f t) = Some res
                    \<and> has_column res ''bubble_size''
                    \<and> map fst (rows res) = map fst (rows res0)
                    \<and> (\<forall>c. c \<noteq> ''bubble_size'' \<and> c \<noteq> ''title_length'' \<and> c \<noteq> ''sentiment_size'' \<longrightarrow>
                          map (\<lambda>r. cell_at r c) (rows res) = map (\<lambda>r. cell_at r c) (rows res0))
                    \<and> list_all (\<lambda>r. scored_row r \<and> sized_row r) (rows res)))"
proof -
  define csv where "csv = scored L t"
  have sc: "session_csv (derived_metrics L kw f t) = csv"
    by (simp add: csv_def session_csv_scored [OF assms(2)])
  have h: "has_column csv ''sentiment''" "has_column csv ''sentiment_positive''"
    by (simp_all add: csv_def scored_frame)
  have v: "map (\<lambda>r. cell_at r ''sentiment'') (rows csv) = map (\<lambda>r. Num (sentiment_of L r)) (rows t)"
    by (simp add: csv_def scored_cells)
  have s: "list_all scored_row (rows csv)"
    unfolding csv_def by (rule scored_rows [OF assms(1)])
  have fl: "\<exists>res. results (derived_metrics L kw f t) = Some res
                    \<and> has_column res ''bubble_size''
                    \<and> map fst (rows res) = map fst (rows res0)
                    \<and> (\<forall>c. c \<noteq> ''bubble_size'' \<and> c \<noteq> ''title_length'' \<and> c \<noteq> ''sentiment_size'' \<longrightarrow>
                          map (\<lambda>r. cell_at r c) (rows res) = map (\<lambda>r. cell_at r c) (rows res0))
                    \<and> list_all (\<lambda>r. scored_row r \<and> sized_row r) (rows res)"
    if "result_filter L kw f csv = Inr res0" for res0
  proof -
    from that have f: "result_filter L kw f (scored L t) = Inr res0" by (simp add: csv_def)
    from result_filter_Inr [OF f] obtain m where
      r0: "res0 = (scored L t)\<lparr>rows := filter (keep m f) (rows (scored L t))\<rparr>"
      by (elim exE conjE) iprover
    have s0: "list_all scored_row (rows res0)"
      using s by (simp add: r0 csv_def list_all_iff)
    note b = bubbled_rows [OF s0]
    from results_after_filter [OF assms(2) f] show ?thesis
    proof
      assume r: "results (derived_metrics L kw f t) = Some (bubbled res0)"
      show ?thesis
        by (rule exI [of _ "bubbled res0"]) (simp add: r bubbled_frame bubbled_cells b)
    next
      assume r: "results (derived_metrics L kw f t) = Some (sized (measured (bubbled res0)))"
      show ?thesis
        by (rule exI [of _ "sized (measured (bubbled res0))"])
           (simp add: r sized_frame measured_frame bubbled_frame sized_cells measured_cells
              bubbled_cells sized_measured_rows [OF b])
    qed
  qed
  then have all: "\<forall>res0. result_filter L kw f csv = Inr res0 \<longrightarrow>
                 (\<exists>res. results (derived_metrics L kw f t) = Some res
                    \<and> has_column res ''bubble_size''
                    \<and> map fst (rows res) = map fst (rows res0)
                    \<and> (\<forall>c. c \<noteq> ''bubble_size'' \<and> c \<noteq> ''title_length'' \<and> c \<noteq> ''sentiment_size'' \<longrightarrow>
                          map (\<lambda>r. cell_at r c) (rows res) = map (\<lambda>r. cell_at r c) (rows res0))
                    \<and> list_all (\<lambda>r. scored_row r \<and> sized_row r) (rows res))"
    by blast
  show ?thesis using sc h v s all by (intro exI [of _ csv] conjI)
qed

lemma example_metrics:
  "derived_metrics example_textlib ''serp'' Search_Terms serp_table
   = \<lparr>raised = None, session_csv = example_scored, results = Some example_result\<rparr>"
  by code_simp

lemma example_polarity: "\<forall>s. - 1 \<le> polarity example_textlib s \<and> polarity example_textlib s \<le> 1"
  by (simp add: example_textlib_def)

lemma example_filtered:
  "result_filter example_textlib ''serp'' Search_Terms example_scored
   = Inr (example_scored\<lparr>rows := [rows example_scored ! 0]\<rparr>)"
  by code_simp

theorem metrics_values_witness:
  "(\<forall>s. - 1 \<le> polarity example_textlib s \<and> polarity example_textlib s \<le> 1)
   \<and> has_column serp_table ''title''
   \<and> derived_metrics example_textlib ''serp'' Search_Terms serp_table
       = \<lparr>raised = None, session_csv = example_scored, results = Some example_result\<rparr>
   \<and> map (\<lambda>r. cell_at r ''sentiment'') (rows example_scored) = [Num (4 / 5), Num (- (7 / 10)), Num 0]
   \<and> list_all scored_row (rows example_scored)
   \<and> list_all sized_row (rows example_result)
   \<and> map (\<lambda>r. cell_at r ''bubble_size'') (rows example_result) = [Num 46]"
proof -
  have t: "has_column serp_table ''title''" by code_simp
  from metrics_values [OF example_polarity t, of "''serp''" Search_Terms] obtain csv where
    sc: "session_csv (derived_metrics example_textlib ''serp'' Search_Terms serp_table) = csv"
    and a: "map (\<lambda>r. cell_at r ''sentiment'') (rows csv)
           = map (\<lambda>r. Num (sentiment_of example_textlib r)) (rows serp_table)"
    and b: "list_all scored_row (rows csv)"
    and c: "\<forall>res0. result_filter example_textlib ''serp'' Search_Terms csv = Inr res0 \<longrightarrow>
                 (\<exists>res. results (derived_metrics example_textlib ''serp'' Search_Terms serp_table) = Some res
                    \<and> has_column res ''bubble_size''
                    \<and> map fst (rows res) = map fst (rows res0)
                    \<and> (\<forall>c. c \<noteq> ''bubble_size'' \<and> c \<noteq> ''title_length'' \<and> c \<noteq> ''sentiment_size'' \<longrightarrow>
                          map (\<lambda>r. cell_at r c) (rows res) = map (\<lambda>r. cell_at r c) (rows res0))
                    \<and> list_all (\<lambda>r. scored_row r \<and> sized_row r) (rows res))"
    by (elim exE conjE) iprover
  have csv: "csv = example_scored" using sc by (simp add: example_metrics)
  have "map (\<lambda>r. Num (sentiment_of example_textlib r)) (rows serp_table)
        = [Num (4 / 5), Num (- (7 / 10)), Num 0]"
    by code_simp
  with a have a': "map (\<lambda>r. cell_at r ''sentiment'') (rows example_scored)
                   = [Num (4 / 5), Num (- (7 / 10)), Num 0]" by (simp add: csv)
  have b': "list_all scored_row (rows example_scored)" using b by (simp add: csv)
  have ef: "result_filter example_textlib ''serp'' Search_Terms csv
            = Inr (example_scored\<lparr>rows := [rows example_scored ! 0]\<rparr>)"
    unfolding csv by (rule example_filtered)
  from c [rule_format, OF ef] obtain res where
    "results (derived_metrics example_textlib ''serp'' Search_Terms serp_table) = Some res"
    "list_all (\<lambda>r. scored_row r \<and> sized_row r) (rows res)"
    by (elim exE conjE) iprover
  then have "list_all (\<lambda>r. scored_row r \<and> sized_row r) (rows example_result)"
    by (simp add: example_metrics)
  then have c': "list_all sized_row (rows example_result)"
    by (simp add: list_all_iff)
  have d: "map (\<lambda>r. cell_at r ''bubble_size'') (rows example_result) = [Num 46]"
    by code_simp
  show ?thesis using example_polarity t example_metrics a' b' c' d by (intro conjI)
qed

text \<open>
  As stated, for every row of the unified table, claim C1 fails: the bubble size is computed
  on the filtered copy only. Of the three rows of \<open>serp_table\<close> one passes the filter; the
  script raises nowhere, the unified table has no bubble size column, and no row of it a
  bubble size.
\<close>

theorem metrics_unfiltered_rows_counterexample:
  "derived_metrics example_textlib ''serp'' Search_Terms serp_table
     = \<lparr>raised = None, session_csv = example_scored, results = Some example_result\<rparr>
   \<and> length (rows example_scored) = 3
   \<and> \<not> has_column example_scored ''bubble_size''
   \<and> map (\<lambda>r. cell_at r ''bubble_size'') (rows example_scored) = [NaN, NaN, NaN]
   \<and> length (rows example_result) = 1"
proof -
  have "length (rows example_scored) = 3" "\<not> has_column example_scored ''bubble_size''"
    "map (\<lambda>r. cell_at r ''bubble_size'') (rows example_scored) = [NaN, NaN, NaN]"
    "length (rows example_result) = 1"
    by code_simp+
  with example_metrics show ?thesis by (intro conjI)
qed

text \<open>
  Claim C6 at a table whose title column holds nothing but missing values, and which has
  the columns the charts name: the sentiment is computed (the title reads as the text
  \<^verbatim>\<open>nan\<close>), the filter keeps the row and the first scatter plot is drawn, but the title
  length is taken through the string accessor, which refuses the column, and the script
  raises \<^verbatim>\<open>AttributeError\<close> at line 210.
\<close>

theorem missing_titles_raise:
  "add_sentiment example_textlib untitled_table
     = Inr (assign untitled_table ''sentiment'' Numeric (\<lambda>r. Num 0))
   \<and> derived_metrics example_textlib ''serp'' Search_Terms untitled_table
       = \<lparr>raised = Some AttributeError,
          session_csv = scored example_textlib untitled_table,
          results = Some (bubbled (scored example_textlib untitled_table))\<rparr>"
proof -
  have "derived_metrics example_textlib ''serp'' Search_Terms untitled_table
       = \<lparr>raised = Some AttributeError,
          session_csv = scored example_textlib untitled_table,
          results = Some (bubbled (scored example_textlib untitled_table))\<rparr>"
    by code_simp
  moreover have "add_sentiment example_textlib untitled_table
     = Inr (assign untitled_table ''sentiment'' Numeric (\<lambda>r. Num 0))"
    by code_simp
  ultimately show ?thesis by (intro conjI)
qed

subsection \<open>What the script changes\<close>

text \<open>
  Claim C7, amended. When the script raises nowhere, the unified table keeps its index name,
  its rows' index labels in order, and every column other than \<^verbatim>\<open>sentiment\<close> and
  \<^verbatim>\<open>sentiment_positive\<close> (cells, presence and dtype); these two it has afterwards as numeric
  columns, the sentiment being the polarity of the row's title and the shifted sentiment
  one more, whatever the table held under these names before. The filtered copy holds the
  rows of the unified table that the filter selects, in order, with every column other than
  \<^verbatim>\<open>bubble_size\<close>, \<^verbatim>\<open>title_length\<close> and \<^verbatim>\<open>sentiment_size\<close> as in the unified table; these
  three it has as numeric columns: the bubble size and the sentiment size are twenty times
  the row's shifted sentiment plus ten, and the title length is the length of the row's
  title, missing when the title is not a string.
\<close>

theorem metrics_frame:
  assumes "raised (derived_metrics L kw f t) = None"
  shows "\<exists>csv res P.
           derived_metrics L kw f t = \<lparr>raised = None, session_csv = csv, results = Some res\<rparr>
         \<and> result_filter L kw f csv = Inr (csv\<lparr>rows := filter P (rows csv)\<rparr>)
         \<and> index_name csv = index_name t
         \<and> map fst (rows csv) = map fst (rows t)
         \<and> (\<forall>c. c \<noteq> ''sentiment'' \<and> c \<noteq> ''sentiment_positive'' \<longrightarrow>
               map (\<lambda>r. cell_at r c) (rows csv) = map (\<lambda>r. cell_at r c) (rows t)
               \<and> has_column csv c = has_column t c
               \<and> column_dtype csv c = column_dtype t c)
         \<and> list_all (\<lambda>c. has_column csv c \<and> column_dtype csv c = Numeric)
               [''sentiment'', ''sentiment_positive'']
         \<and> map (\<lambda>r. cell_at r ''sentiment'') (rows csv) = map (\<lambda>r. Num (sentiment_of L r)) (rows t)
         \<and> map (\<lambda>r. cell_at r ''sentiment_positive'') (rows csv)
             = map (\<lambda>r. Num (sentiment_of L r + 1)) (rows t)
         \<and> index_name res = index_name csv
         \<and> map fst (rows res) = map fst (filter P (rows csv))
         \<and> (\<forall>c. c \<noteq> ''bubble_size'' \<and> c \<noteq> ''title_length'' \<and> c \<noteq> ''sentiment_size'' \<longrightarrow>
               map (\<lambda>r. cell_at r c) (rows res) = map (\<lambda>r. cell_at r c) (filter P (rows csv))
               \<and> has_column res c = has_column csv c
               \<and> column_dtype res c = column_dtype csv c)
         \<and> list_all (\<lambda>c. has_column res c \<and> column_dtype res c = Numeric)
               [''bubble_size'', ''title_length'', ''sentiment_size'']
         \<and> map (\<lambda>r. cell_at r ''bubble_size'') (rows res)
             = map (\<lambda>r. arith_cell (\<lambda>x. x * 20 + 10) (cell_at r ''sentiment_positive''))
                 (filter P (rows csv))
         \<and> map (\<lambda>r. cell_at r ''title_length'') (rows res)
             = map (\<lambda>r. str_len (cell_at r ''title'')) (filter P (rows csv))
         \<and> map (\<lambda>r. cell_at r ''sentiment_size'') (rows res)
             = map (\<lambda>r. arith_cell (\<lambda>x. x * 20 + 10) (cell_at r ''sentiment_positive''))
                 (filter P (rows csv))"
proof -
  from derived_metrics_completes [OF assms] obtain m res0 where
    r0: "res0 = (scored L t)\<lparr>rows := filter (keep m f) (rows (scored L t))\<rparr>"
    and fl: "result_filter L kw f (scored L t) = Inr res0"
    and dm: "derived_metrics L kw f t
               = \<lparr>raised = None, session_csv = scored L t,
                   results = Some (sized (measured (bubbled res0)))\<rparr>"
    by (elim exE conjE) iprover
  define csv where "csv = scored L t"
  define res where "res = sized (measured (bubbled res0))"
  define P where "P = keep m f"
  have rows0: "rows res0 = filter P (rows csv)" by (simp add: r0 csv_def P_def)
  have cols0: "has_column res0 c = has_column csv c" "column_dtype res0 c = column_dtype csv c" for c
    by (simp_all add: r0 csv_def has_column_def column_dtype_def)
  have c1: "derived_metrics L kw f t = \<lparr>raised = None, session_csv = csv, results = Some res\<rparr>"
    by (simp only: dm csv_def res_def)
  have c2: "result_filter L kw f csv = Inr (csv\<lparr>rows := filter P (rows csv)\<rparr>)"
    using fl by (simp only: r0 csv_def P_def)
  have c3: "index_name csv = index_name t" by (simp add: csv_def scored_frame)
  have c4: "map fst (rows csv) = map fst (rows t)" by (simp add: csv_def scored_frame)
  have c5: "\<forall>c. c \<noteq> ''sentiment'' \<and> c \<noteq> ''sentiment_positive'' \<longrightarrow>
               map (\<lambda>r. cell_at r c) (rows csv) = map (\<lambda>r. cell_at r c) (rows t)
               \<and> has_column csv c = has_column t c
               \<and> column_dtype csv c = column_dtype t c"
    by (simp add: csv_def scored_frame scored_cells)
  have c6: "list_all (\<lambda>c. has_column csv c \<and> column_dtype csv c = Numeric)
               [''sentiment'', ''sentiment_positive'']"
    by (simp add: csv_def scored_frame)
  have c7: "map (\<lambda>r. cell_at r ''sentiment'') (rows csv) = map (\<lambda>r. Num (sentiment_of L r)) (rows t)"
    by (simp add: csv_def scored_cells)
  have c8: "map (\<lambda>r. cell_at r ''sentiment_positive'') (rows csv)
             = map (\<lambda>r. Num (sentiment_of L r + 1)) (rows t)"
    by (simp add: csv_def scored_cells)
  have c9: "index_name res = index_name csv"
    by (simp add: res_def sized_frame measured_frame bubbled_frame r0 csv_def)
  have c10: "map fst (rows res) = map fst (filter P (rows csv))"
    by (simp add: res_def sized_frame measured_frame bubbled_frame rows0)
  have c11: "\<forall>c. c \<noteq> ''bubble_size'' \<and> c \<noteq> ''title_length'' \<and> c \<noteq> ''sentiment_size'' \<longrightarrow>
               map (\<lambda>r. cell_at r c) (rows res) = map (\<lambda>r. cell_at r c) (filter P (rows csv))
               \<and> has_column res c = has_column csv c
               \<and> column_dtype res c = column_dtype csv c"
    by (simp add: res_def sized_frame measured_frame bubbled_frame sized_cells measured_cells
        bubbled_cells rows0 cols0)
  have c12: "list_all (\<lambda>c. has_column res c \<and> column_dtype res c = Numeric)
               [''bubble_size'', ''title_length'', ''sentiment_size'']"
    by (simp add: res_def sized_frame measured_frame bubbled_frame)
  have c13: "map (\<lambda>r. cell_at r ''bubble_size'') (rows res)
             = map (\<lambda>r. arith_cell (\<lambda>x. x * 20 + 10) (cell_at r ''sentiment_positive''))
                 (filter P (rows csv))"
    by (simp add: res_def sized_cells measured_cells bubbled_cells rows0)
  have t0: "map (\<lambda>r. cell_at r ''title'') (rows (bubbled res0))
            = map (\<lambda>r. cell_at r ''title'') (filter P (rows csv))"
    by (simp add: bubbled_cells rows0)
  have c14: "map (\<lambda>r. cell_at r ''title_length'') (rows res)
             = map (\<lambda>r. str_len (cell_at r ''title'')) (filter P (rows csv))"
    using through_cells [OF t0, of str_len] by (simp add: res_def sized_cells measured_cells)
  have p0: "map (\<lambda>r. cell_at r ''sentiment_positive'') (rows (measured (bubbled res0)))
            = map (\<lambda>r. cell_at r ''sentiment_positive'') (filter P (rows csv))"
    by (simp add: measured_cells bubbled_cells rows0)
  have c15: "map (\<lambda>r. cell_at r ''sentiment_size'') (rows res)
             = map (\<lambda>r. arith_cell (\<lambda>x. x * 20 + 10) (cell_at r ''sentiment_positive''))
                 (filter P (rows csv))"
    using through_cells [OF p0, of "arith_cell (\<lambda>x. x * 20 + 10)"] by (simp add: res_def sized_cells)
  show ?thesis
    by (rule exI [of _ csv], rule exI [of _ res], rule exI [of _ P],
        rule conjI [OF c1], rule conjI [OF c2], rule conjI [OF c3], rule conjI [OF c4],
        rule conjI [OF c5], rule conjI [OF c6], rule conjI [OF c7], rule conjI [OF c8],
        rule conjI [OF c9], rule conjI [OF c10], rule conjI [OF c11], rule conjI [OF c12],
        rule conjI [OF c13], rule conjI [OF c14], rule c15)
qed

theorem metrics_frame_witness:
  "raised (derived_metrics example_textlib ''serp'' Search_Terms serp_table) = None
   \<and> derived_metrics example_textlib ''serp'' Search_Terms serp_table
       = \<lparr>raised = None, session_csv = example_scored, results = Some example_result\<rparr>
   \<and> map fst (rows example_scored) = map fst (rows serp_table)
   \<and> map (\<lambda>r. cell_at r ''title'') (rows example_scored)
       = map (\<lambda>r. cell_at r ''title'') (rows serp_table)
   \<and> has_column example_scored ''rank'' = has_column serp_table ''rank''
   \<and> column_dtype example_result ''title'' = column_dtype example_scored ''title''
   \<and> list_all (\<lambda>c. has_column example_result c \<and> column_dtype example_result c = Numeric)
         [''bubble_size'', ''title_length'', ''sentiment_size'']
   \<and> map (\<lambda>r. cell_at r ''title_length'') (rows example_result) = [Num 18]"
proof -
  have h: "raised (derived_metrics example_textlib ''serp'' Search_Terms serp_table) = None"
    by (simp add: example_metrics)
  from metrics_frame [OF h] obtain csv res P where
    w1: "derived_metrics example_textlib ''serp'' Search_Terms serp_table
           = \<lparr>raised = None, session_csv = csv, results = Some res\<rparr>"
    and w2: "result_filter example_textlib ''serp'' Search_Terms csv
               = Inr (csv\<lparr>rows := filter P (rows csv)\<rparr>)"
    and w3: "index_name csv = index_name serp_table"
    and w4: "map fst (rows csv) = map fst (rows serp_table)"
    and w5: "\<forall>c. c \<noteq> ''sentiment'' \<and> c \<noteq> ''sentiment_positive'' \<longrightarrow>
               map (\<lambda>r. cell_at r c) (rows csv) = map (\<lambda>r. cell_at r c) (rows serp_table)
               \<and> has_column csv c = has_column serp_table c
               \<and> column_dtype csv c = column_dtype serp_table c"
    and w6: "list_all (\<lambda>c. has_column csv c \<and> column_dtype csv c = Numeric)
               [''sentiment'', ''sentiment_positive'']"
    and w7: "map (\<lambda>r. cell_at r ''sentiment'') (rows csv)
               = map (\<lambda>r. Num (sentiment_of example_textlib r)) (rows serp_table)"
    and w8: "map (\<lambda>r. cell_at r ''sentiment_positive'') (rows csv)
             = map (\<lambda>r. Num (sentiment_of example_textlib r + 1)) (rows serp_table)"
    and w9: "index_name res = index_name csv"
    and w10: "map fst (rows res) = map fst (filter P (rows csv))"
    and w11: "\<forall>c. c \<noteq> ''bubble_size'' \<and> c \<noteq> ''title_length'' \<and> c \<noteq> ''sentiment_size'' \<longrightarrow>
               map (\<lambda>r. cell_at r c) (rows res) = map (\<lambda>r. cell_at r c) (filter P (rows csv))
               \<and> has_column res c = has_column csv c
               \<and> column_dtype res c = column_dtype csv c"
    and w12: "list_all (\<lambda>c. has_column res c \<and> column_dtype res c = Numeric)
               [''bubble_size'', ''title_length'', ''sentiment_size'']"
    by (elim exE conjE)
  have "session_csv (derived_metrics example_textlib ''serp'' Search_Terms serp_table) = csv"
    "results (derived_metrics example_textlib ''serp'' Search_Terms serp_table) = Some res"
    by (simp_all only: w1 run.select_convs)
  then have e: "csv = example_scored" "res = example_result"
    by (simp_all only: example_metrics run.select_convs option.inject)
  have a: "map fst (rows example_scored) = map fst (rows serp_table)"
    using w4 by (simp only: e)
  have t: "map (\<lambda>r. cell_at r ''title'') (rows example_scored)
           = map (\<lambda>r. cell_at r ''title'') (rows serp_table)"
    using w5 [rule_format, of "''title''"] by (simp add: e)
  have r: "has_column example_scored ''rank'' = has_column serp_table ''rank''"
    using w5 [rule_format, of "''rank''"] by (simp add: e)
  have d: "column_dtype example_result ''title'' = column_dtype example_scored ''title''"
    using w11 [rule_format, of "''title''"] by (simp add: e)
  have n: "list_all (\<lambda>c. has_column example_result c \<and> column_dtype example_result c = Numeric)
         [''bubble_size'', ''title_length'', ''sentiment_size'']"
    using w12 by (simp only: e)
  have l: "map (\<lambda>r. cell_at r ''title_length'') (rows example_result) = [Num 18]"
    by code_simp
  show ?thesis using h example_metrics a t r d n l by (intro conjI)
qed

text \<open>
  As stated, leaving every column the table had unchanged, claim C7 fails: a table that comes
  with a column named \<^verbatim>\<open>sentiment\<close> has it overwritten, in a run that raises nowhere.
\<close>

theorem metrics_overwrite_counterexample:
  "map (\<lambda>r. cell_at r ''sentiment'') (rows labelled_table) = [Str ''mixed'']
   \<and> raised (derived_metrics example_textlib ''serp'' Search_Terms labelled_table) = None
   \<and> map (\<lambda>r. cell_at r ''sentiment'')
        (rows (session_csv (derived_metrics example_textlib ''serp'' Search_Terms labelled_table)))
     = [Num (4 / 5)]"
  by code_simp

section \<open>The round trip through CSV\<close>

lemma map_enumerate_nth:
  assumes "\<And>j. j < length xs \<Longrightarrow> F j (xs ! j) = G (xs ! j)"
  shows "map (\<lambda>jx. F (fst jx) (snd jx)) (enumerate 0 xs) = map G xs"
proof -
  have "map (\<lambda>jx. F (fst jx) (snd jx)) (enumerate 0 xs) = map (\<lambda>jx. G (snd jx)) (enumerate 0 xs)"
  proof (rule map_cong [OF refl])
    fix jx assume m: "jx \<in> set (enumerate 0 xs)"
    obtain j x where jx: "jx = (j, x)" by (cases jx)
    have "fst jx < length xs \<and> snd jx = xs ! fst jx"
      using m unfolding jx by (simp add: in_set_enumerate_eq)
    then show "F (fst jx) (snd jx) = G (snd jx)" using assms by simp
  qed
  also have "\<dots> = map G (map snd (enumerate 0 xs))" by (simp only: map_map comp_def)
  also have "\<dots> = map G xs" by (simp only: map_snd_enumerate)
  finally show ?thesis .
qed

lemma stable_read:
  assumes "stable_column C df c" and "r \<in> set (rows df)"
  shows "read_field C (numeric_fields C (map (\<lambda>r. field C (cell_at r c)) (rows df)))
           (field C (cell_at r c)) = cell_at r c"
proof -
  have na: "is_na []" by (simp add: is_na_def na_values_def)
  from assms(1) consider
    (numbers) "list_all (\<lambda>r. number_kept C (cell_at r c)) (rows df)"
    | (strings) "list_all (\<lambda>r. text_kept (cell_at r c)) (rows df)"
            "list_ex (\<lambda>r. plain_text C (cell_at r c)) (rows df)"
    unfolding stable_column_def by blast
  then show ?thesis
  proof cases
    case numbers
    have k: "number_kept C (cell_at r' c)" if "r' \<in> set (rows df)" for r'
      using numbers that by (simp add: list_all_iff)
    have "is_na (field C (cell_at r' c)) \<or> literal C (field C (cell_at r' c)) \<noteq> None"
      if "r' \<in> set (rows df)" for r'
      using k [OF that] by (cases "cell_at r' c") (simp_all add: na)
    then have n: "numeric_fields C (map (\<lambda>r. field C (cell_at r c)) (rows df))"
      by (simp add: numeric_fields_def list_all_iff)
    show ?thesis
      using k [OF assms(2)] n
      by (cases "cell_at r c") (simp_all add: read_field_def na)
  next
    case strings
    have k: "text_kept (cell_at r' c)" if "r' \<in> set (rows df)" for r'
      using strings(1) that by (simp add: list_all_iff)
    from strings(2) obtain r0 where r0: "r0 \<in> set (rows df)" "plain_text C (cell_at r0 c)"
      by (auto simp: list_ex_iff)
    then obtain s0 where s0: "cell_at r0 c = Str s0" "literal C s0 = None"
      by (cases "cell_at r0 c") simp_all
    have "\<not> is_na s0" using k [OF r0(1)] s0(1) by simp
    then have "\<not> (is_na (field C (cell_at r0 c)) \<or> literal C (field C (cell_at r0 c)) \<noteq> None)"
      using s0 by simp
    then have n: "\<not> numeric_fields C (map (\<lambda>r. field C (cell_at r c)) (rows df))"
      using r0(1) by (auto simp: numeric_fields_def list_all_iff)
    show ?thesis
      using k [OF assms(2)] n
      by (cases "cell_at r c") (simp_all add: read_field_def na)
  qed
qed

lemma to_csv_fields:
  assumes "index_name df = Some q" and "q \<notin> set (map fst (columns df))"
  shows "to_csv C df
         = (q # map fst (columns df))
           # map (\<lambda>r. map (csv_field C q r) (q # map fst (columns df))) (rows df)"
proof -
  have "map (\<lambda>c. field C (cell_at r c)) (map fst (columns df))
        = map (csv_field C q r) (map fst (columns df))" for r
    by (rule map_cong [OF refl]) (use assms(2) in \<open>auto simp: csv_field_def\<close>)
  then show ?thesis using assms(1) by (simp add: to_csv_def csv_field_def)
qed

lemma header_names:
  assumes "[] \<notin> set hs"
  shows "map (\<lambda>jh. header_name (fst jh) (snd jh)) (enumerate 0 hs) = map (\<lambda>h. h) hs"
proof (rule map_enumerate_nth)
  fix j assume "j < length hs"
  then have "hs ! j \<noteq> []" using assms by (metis nth_mem)
  then show "header_name j (hs ! j) = hs ! j" by (simp add: header_name_def)
qed

lemma field_at_map: "j < length hs \<Longrightarrow> field_at (map f hs) j = f (hs ! j)"
  by (simp add: field_at_def)

lemma read_csv_fields:
  assumes "[] \<notin> set hs"
  shows "\<exists>rs. read_csv C (hs # map (\<lambda>r. map (csv_field C q r) hs) (rows df))
              = Inr \<lparr>index_name = None,
                     columns = map (\<lambda>h. (h, if csv_numeric C q df h then Numeric else Object)) hs,
                     rows = rs\<rparr>
            \<and> map snd rs = map (\<lambda>r. map (\<lambda>h. (h, csv_cell C q df r h)) hs) (rows df)"
proof -
  let ?body = "map (\<lambda>r. map (csv_field C q r) hs) (rows df)"
  let ?num = "\<lambda>j. ?body \<noteq> [] \<and> numeric_fields C (map (\<lambda>fs. field_at fs j) ?body)"
  let ?inner = "\<lambda>fs. map (\<lambda>jn. (snd jn, read_field C (?num (fst jn)) (field_at fs (fst jn))))
                         (enumerate 0 hs)"
  let ?rs = "map (\<lambda>ifs. (Num (real (fst ifs)), ?inner (snd ifs))) (enumerate 0 ?body)"
  have names: "map (\<lambda>jh. header_name (fst jh) (snd jh)) (enumerate 0 hs) = hs"
    using header_names [OF assms] by simp
  have long: "\<not> list_ex (\<lambda>fs. length hs < length fs) ?body"
    by (simp add: list_ex_iff)
  have num: "?num j = csv_numeric C q df (hs ! j)" if "j < length hs" for j
  proof -
    have "map (\<lambda>fs. field_at fs j) ?body = map (\<lambda>r. csv_field C q r (hs ! j)) (rows df)"
      using that by (simp add: comp_def field_at_map)
    moreover have "?body \<noteq> [] \<longleftrightarrow> rows df \<noteq> []" by simp
    ultimately show ?thesis by (simp only: csv_numeric_def)
  qed
  have cols: "map (\<lambda>jn. (snd jn, if ?num (fst jn) then Numeric else Object)) (enumerate 0 hs)
              = map (\<lambda>h. (h, if csv_numeric C q df h then Numeric else Object)) hs"
    by (rule map_enumerate_nth) (simp only: num)
  have inner: "?inner (map (csv_field C q r) hs) = map (\<lambda>h. (h, csv_cell C q df r h)) hs" for r
    by (rule map_enumerate_nth) (simp only: num field_at_map csv_cell_def)
  have "read_csv C (hs # ?body)
        = Inr \<lparr>index_name = None,
               columns = map (\<lambda>jn. (snd jn, if ?num (fst jn) then Numeric else Object)) (enumerate 0 hs),
               rows = ?rs\<rparr>"
    using long by (simp add: read_csv_def Let_def names)
  then have a: "read_csv C (hs # ?body)
        = Inr \<lparr>index_name = None,
               columns = map (\<lambda>h. (h, if csv_numeric C q df h then Numeric else Object)) hs,
               rows = ?rs\<rparr>"
    by (simp only: cols)
  have "map snd ?rs = map ?inner (map snd (enumerate 0 ?body))"
    by (simp only: map_map comp_def snd_conv)
  also have "\<dots> = map ?inner ?body" by (simp only: map_snd_enumerate)
  also have "\<dots> = map (?inner \<circ> (\<lambda>r. map (csv_field C q r) hs)) (rows df)"
    by (rule map_map)
  also have "\<dots> = map (\<lambda>r. map (\<lambda>h. (h, csv_cell C q df r h)) hs) (rows df)"
    by (rule map_cong [OF refl]) (simp only: comp_apply inner)
  finally have b: "map snd ?rs = map (\<lambda>r. map (\<lambda>h. (h, csv_cell C q df r h)) hs) (rows df)" .
  show ?thesis by (rule exI [of _ ?rs], rule conjI, rule a, rule b)
qed

lemma foldl_add_column_fresh:
  assumes "distinct (map fst cs)" and "fst ` set cs \<inter> fst ` set acc = {}"
  shows "foldl add_column acc cs = acc @ cs"
  using assms
proof (induction cs arbitrary: acc)
  case Nil
  show ?case by simp
next
  case (Cons cd cs)
  obtain c d where cd: "cd = (c, d)" by (cases cd)
  have "c \<notin> fst ` set acc" using Cons.prems(2) by (auto simp: cd)
  then have "map_of acc c = None" by (simp add: map_of_eq_None_iff)
  then have step: "add_column acc cd = acc @ [cd]" by (simp add: cd)
  have "foldl add_column (acc @ [cd]) cs = (acc @ [cd]) @ cs"
  proof (rule Cons.IH)
    show "distinct (map fst cs)" using Cons.prems(1) by simp
    show "fst ` set cs \<inter> fst ` set (acc @ [cd]) = {}"
      using Cons.prems by (auto simp: cd rev_image_eqI)
  qed
  then show ?case by (simp add: step)
qed

lemma map_of_keyed: "map_of (map (\<lambda>h. (h, f h)) hs) c = (if c \<in> set hs then Some (f c) else None)"
  by (induction hs) auto

lemma cell_at_snd: "cell_at (a, kvs) c = cell_at (b, kvs) c"
  by (simp add: cell_at_def)

lemma read_back_cell:
  assumes "c \<in> set hs" and "c \<noteq> q" and "c \<noteq> u" and "\<And>h. h \<in> set hs \<Longrightarrow> P h"
  shows "cell_at (l, AList.delete q (AList.delete u
                      (filter (\<lambda>kv. P (fst kv)) (map (\<lambda>h. (h, f h)) hs)))) c = f c"
proof -
  have "filter (\<lambda>kv. P (fst kv)) (map (\<lambda>h. (h, f h)) hs) = map (\<lambda>h. (h, f h)) hs"
    by (rule filter_True) (use assms(4) in auto)
  then show ?thesis using assms(1,2,3) by (simp add: cell_at_def map_of_keyed)
qed

lemma keyed_keys: "map fst (map (\<lambda>h. (h, f h)) hs) = hs"
  by (simp add: comp_def)

lemma delete_keys: "map fst (AList.delete k al) = filter (\<lambda>h. h \<noteq> k) (map fst al)"
  by (induction al) auto

lemma filter_absent: "k \<notin> set xs \<Longrightarrow> filter (\<lambda>h. h \<noteq> k) xs = xs"
  by (induction xs) auto

lemma data_rows_merged:
  "map (\<lambda>r. map (cell_at r) cs) (merged_rows T [d])
     = map (\<lambda>kvs. map (cell_at (NaN, AList.delete ''queryTime'' (AList.delete ''Unnamed: 0''
                          (filter (\<lambda>kv. has_column d (fst kv)) kvs)))) cs) (map snd (rows d))"
  by (simp add: merged_rows_def own_cells_def Let_def comp_def cell_at_def)

text \<open>
  Claim C9, amended. A session table whose column labels are distinct, not empty and neither
  \<^verbatim>\<open>queryTime\<close> nor \<^verbatim>\<open>Unnamed: 0\<close>, and whose columns each survive the round trip, is
  reproduced by exporting it to CSV and uploading the export: the upload succeeds, and the
  table it gives has the same column labels and the same rows of cells, in the same order.
  The index labels are left out of the comparison.
\<close>

theorem csv_round_trip:
  assumes "index_name df = Some ''queryTime''"
    and "distinct (map fst (columns df))"
    and "list_all (\<lambda>c. c \<noteq> [] \<and> c \<noteq> ''queryTime'' \<and> c \<noteq> ''Unnamed: 0'') (map fst (columns df))"
    and "list_all (stable_column C df) (map fst (columns df))"
  shows "\<exists>m. reimport T C df = Inr m
           \<and> index_name m = Some ''queryTime''
           \<and> map fst (columns m) = map fst (columns df)
           \<and> data_rows m = data_rows df"
proof -
  let ?q = "''queryTime''" and ?u = "''Unnamed: 0''"
  let ?cs = "map fst (columns df)"
  let ?hs = "?q # ?cs"
  have names: "c \<noteq> [] \<and> c \<noteq> ?q \<and> c \<noteq> ?u" if "c \<in> set ?cs" for c
    using assms(3) that by (auto simp: list_all_iff)
  have q: "?q \<notin> set ?cs" using names by blast
  have ne: "[] \<notin> set ?hs" using names by auto
  have dist: "distinct ?hs" using q assms(2) by simp
  from read_csv_fields [OF ne, of C ?q df] obtain rs where
    rd: "read_csv C (?hs # map (\<lambda>r. map (csv_field C ?q r) ?hs) (rows df))
           = Inr \<lparr>index_name = None,
                  columns = map (\<lambda>h. (h, if csv_numeric C ?q df h then Numeric else Object)) ?hs,
                  rows = rs\<rparr>"
    and rs: "map snd rs = map (\<lambda>r. map (\<lambda>h. (h, csv_cell C ?q df r h)) ?hs) (rows df)"
    by (elim exE conjE) iprover
  define df' where "df' = \<lparr>index_name = None,
                  columns = map (\<lambda>h. (h, if csv_numeric C ?q df h then Numeric else Object)) ?hs,
                  rows = rs\<rparr>"
  have rd': "read_csv C (to_csv C df) = Inr df'"
    unfolding to_csv_fields [OF assms(1) q] df'_def by (rule rd)
  have keys: "map fst (columns df') = ?hs" by (simp add: df'_def comp_def)
  have cols: "columns df' = map (\<lambda>h. (h, if csv_numeric C ?q df h then Numeric else Object)) ?hs"
    by (simp only: df'_def frame.simps)
  have hc: "has_column df' h \<longleftrightarrow> h \<in> set ?hs" for h
    unfolding has_column_def cols map_of_keyed by (simp split: if_splits)
  have hq: "\<exists>x\<in>set [df']. has_column x ?q" by (simp add: hc)
  have uc: "union_columns [df'] = columns df'"
    unfolding union_columns_def using foldl_add_column_fresh [of "columns df'" "[]"] dist keys
    by simp
  define m where "m = \<lparr>index_name = Some ?q,
                columns = AList.delete ?q (AList.delete ?u (union_columns [df'])),
                rows = merged_rows T [df']\<rparr>"
  have mg: "merge T [df'] = Inr m"
    unfolding m_def by (rule merge_result [OF _ hq]) simp
  have re: "reimport T C df = Inr m" by (simp add: reimport_def upload_def rd' mg)
  have cm: "map fst (columns m) = ?cs"
  proof -
    have "map fst (columns m) = filter (\<lambda>h. h \<noteq> ?q) (filter (\<lambda>h. h \<noteq> ?u) ?hs)"
      by (simp only: m_def frame.simps uc delete_keys keys)
    also have "\<dots> = filter (\<lambda>h. h \<noteq> ?q) ?hs"
    proof -
      have "?u \<notin> set ?hs" using names by auto
      then have "filter (\<lambda>h. h \<noteq> ?u) ?hs = ?hs" by (rule filter_absent)
      then show ?thesis by (rule arg_cong)
    qed
    also have "\<dots> = filter (\<lambda>h. h \<noteq> ?q) ?cs" by simp
    also have "\<dots> = ?cs" using q by (rule filter_absent)
    finally show ?thesis .
  qed
  define Z where "Z = (\<lambda>kvs. map (\<lambda>c. cell_at (NaN, AList.delete ?q (AList.delete ?u
                          (filter (\<lambda>kv. has_column df' (fst kv)) kvs))) c) ?cs)"
  have dm: "data_rows m = map Z (map snd rs)"
  proof -
    have "data_rows m = map (\<lambda>r. map (cell_at r) ?cs) (rows m)"
      by (simp only: data_rows_def cm)
    also have "rows m = merged_rows T [df']" by (simp add: m_def)
    also have "rows df' = rs" by (simp add: df'_def)
    then have "map (\<lambda>r. map (cell_at r) ?cs) (merged_rows T [df']) = map Z (map snd rs)"
      unfolding Z_def data_rows_merged by (rule arg_cong)
    finally show ?thesis .
  qed
  have zr: "Z (map (\<lambda>h. (h, csv_cell C ?q df r h)) ?hs) = map (cell_at r) ?cs"
    if r: "r \<in> set (rows df)" for r
    unfolding Z_def
  proof (rule map_cong [OF refl])
    fix c assume c: "c \<in> set ?cs"
    then have st: "stable_column C df c" using assms(4) by (auto simp: list_all_iff)
    have "cell_at (NaN, AList.delete ?q (AList.delete ?u
             (filter (\<lambda>kv. has_column df' (fst kv)) (map (\<lambda>h. (h, csv_cell C ?q df r h)) ?hs)))) c
          = csv_cell C ?q df r c"
      by (rule read_back_cell) (use c names [OF c] hc in auto)
    also have "\<dots> = read_field C (numeric_fields C (map (\<lambda>r. field C (cell_at r c)) (rows df)))
                         (field C (cell_at r c))"
    proof -
      have "rows df \<noteq> []" using r by auto
      then show ?thesis using names [OF c] by (simp add: csv_cell_def csv_numeric_def csv_field_def)
    qed
    also have "\<dots> = cell_at r c" by (rule stable_read [OF st r])
    finally show "cell_at (NaN, AList.delete ?q (AList.delete ?u
             (filter (\<lambda>kv. has_column df' (fst kv)) (map (\<lambda>h. (h, csv_cell C ?q df r h)) ?hs)))) c
          = cell_at r c" .
  qed
  have "data_rows m = map Z (map (\<lambda>r. map (\<lambda>h. (h, csv_cell C ?q df r h)) ?hs) (rows df))"
    by (simp only: dm rs)
  also have "\<dots> = map (Z \<circ> (\<lambda>r. map (\<lambda>h. (h, csv_cell C ?q df r h)) ?hs)) (rows df)"
    by (rule map_map)
  also have "\<dots> = map (\<lambda>r. map (cell_at r) ?cs) (rows df)"
    by (rule map_cong [OF refl]) (simp only: comp_apply zr)
  finally have dr: "data_rows m = data_rows df" by (simp only: data_rows_def)
  have im: "index_name m = Some ?q" by (simp add: m_def)
  show ?thesis by (rule exI [of _ m], intro conjI, rule re, rule im, rule cm, rule dr)
qed

theorem csv_round_trip_witness:
  "index_name example_table = Some ''queryTime''
   \<and> distinct (map fst (columns example_table))
   \<and> list_all (\<lambda>c. c \<noteq> [] \<and> c \<noteq> ''queryTime'' \<and> c \<noteq> ''Unnamed: 0'')
         (map fst (columns example_table))
   \<and> list_all (stable_column example_csvlib example_table) (map fst (columns example_table))
   \<and> (\<exists>m. reimport example_timelib example_csvlib example_table = Inr m
         \<and> map fst (columns m) = [''searchTerms'', ''rank'', ''title'']
         \<and> data_rows m
             = [[Str ''serp tracking tools'', Num 1, Str ''Great SERP tracker''],
                [Str ''seo rank tracking'', Num 1, Str ''Bad SEO advice''],
                [Str ''seo rank tracking'', Num 2, Str ''Serp basics'']])"
proof -
  have h1: "index_name example_table = Some ''queryTime''" by (simp add: example_table_def)
  have h2: "distinct (map fst (columns example_table))" by (simp add: example_table_def)
  have h3: "list_all (\<lambda>c. c \<noteq> [] \<and> c \<noteq> ''queryTime'' \<and> c \<noteq> ''Unnamed: 0'')
              (map fst (columns example_table))"
    by (simp add: example_table_def)
  have h4: "list_all (stable_column example_csvlib example_table) (map fst (columns example_table))"
    by code_simp
  have cs: "map fst (columns example_table) = [''searchTerms'', ''rank'', ''title'']"
    by (simp add: example_table_def)
  have dr: "data_rows example_table
             = [[Str ''serp tracking tools'', Num 1, Str ''Great SERP tracker''],
                [Str ''seo rank tracking'', Num 1, Str ''Bad SEO advice''],
                [Str ''seo rank tracking'', Num 2, Str ''Serp basics'']]"
    by (simp add: data_rows_def example_table_def cell_at_def)
  from csv_round_trip [OF h1 h2 h3 h4, of example_timelib] obtain m where
    m: "reimport example_timelib example_csvlib example_table = Inr m"
       "map fst (columns m) = map fst (columns example_table)"
       "data_rows m = data_rows example_table"
    by (elim exE conjE) iprover
  have "\<exists>m. reimport example_timelib example_csvlib example_table = Inr m
         \<and> map fst (columns m) = [''searchTerms'', ''rank'', ''title'']
         \<and> data_rows m
             = [[Str ''serp tracking tools'', Num 1, Str ''Great SERP tracker''],
                [Str ''seo rank tracking'', Num 1, Str ''Bad SEO advice''],
                [Str ''seo rank tracking'', Num 2, Str ''Serp basics'']]"
    using m unfolding cs dr by (intro exI [of _ m] conjI)
  with h1 h2 h3 h4 show ?thesis by (intro conjI)
qed

text \<open>
  Claim C9 as stated fails on the table merged from two snapshots of which the first has
  only numbers for titles: its title column holds the number 404, the export writes the
  text \<^verbatim>\<open>404\<close>, and the upload of the export, whose title column has another string, reads
  the string \<^verbatim>\<open>404\<close> there.
\<close>

theorem csv_round_trip_counterexample:
  "upload example_timelib example_csvlib [upload_a, upload_b] = Inr session_table
   \<and> data_rows session_table = [[Str ''serp tools'', Num 404], [Str ''seo'', Str ''SEO guide'']]
   \<and> map_sum id data_rows (reimport example_timelib example_csvlib session_table)
       = Inr [[Str ''serp tools'', Str ''404''], [Str ''seo'', Str ''SEO guide'']]"
  by code_simp

end
